theory Spec2Isabelle
  imports Main "HOL-Library.AList"
begin

section \<open>Python strings\<close>

text \<open>
  A Python string is a list of code points.  The model has the code points below 256:
  a \<^typ>\<open>char\<close> is the code point of its number, so a string here is a Python string all
  of whose code points are below 256, and a string with a larger code point is outside
  the model.  On these code points the character classes of Python are finite tables,
  written out here: white space (\<^verbatim>\<open>str.isspace\<close>, which \<^verbatim>\<open>split\<close> and \<^verbatim>\<open>strip\<close> use), word
  characters (the class \<^verbatim>\<open>\w\<close> of a pattern on \<^verbatim>\<open>str\<close>), and the letters that \<^verbatim>\<open>lower\<close>
  changes.
\<close>

definition code_point :: "char \<Rightarrow> nat" where
  "code_point c = of_char c"

definition is_ascii_upper :: "char \<Rightarrow> bool" where
  "is_ascii_upper c = (65 \<le> code_point c \<and> code_point c \<le> 90)"

definition is_ascii_lower :: "char \<Rightarrow> bool" where
  "is_ascii_lower c = (97 \<le> code_point c \<and> code_point c \<le> 122)"

definition is_ascii_digit :: "char \<Rightarrow> bool" where
  "is_ascii_digit c = (48 \<le> code_point c \<and> code_point c \<le> 57)"

text \<open>
  The letters with an accent: \<open>0xC0\<close> to \<open>0xDE\<close> without the multiplication sign \<open>0xD7\<close>
  are upper case, \<open>0xDF\<close> to \<open>0xFF\<close> without the division sign \<open>0xF7\<close> are lower case.
\<close>

definition is_latin_upper :: "char \<Rightarrow> bool" where
  "is_latin_upper c = (192 \<le> code_point c \<and> code_point c \<le> 222 \<and> code_point c \<noteq> 215)"

definition is_latin_lower :: "char \<Rightarrow> bool" where
  "is_latin_lower c = (223 \<le> code_point c \<and> code_point c \<noteq> 247)"

text \<open>
  \<^verbatim>\<open>\w\<close>: the letters, the digits, the underscore, the two ordinal indicators \<open>0xAA\<close> and
  \<open>0xBA\<close>, the micro sign \<open>0xB5\<close>, the superscript digits \<open>0xB2\<close>, \<open>0xB3\<close>, \<open>0xB9\<close> and the
  fractions \<open>0xBC\<close> to \<open>0xBE\<close>.
\<close>

definition is_word_char :: "char \<Rightarrow> bool" where
  "is_word_char c =
     (is_ascii_upper c \<or> is_ascii_lower c \<or> is_ascii_digit c \<or> c = CHR ''_''
      \<or> is_latin_upper c \<or> is_latin_lower c
      \<or> code_point c \<in> {170, 178, 179, 181, 185, 186, 188, 189, 190})"

text \<open>
  White space: the code_point points 9 to 13 and 28 to 32, the next-line control \<open>0x85\<close> and
  the no-break space \<open>0xA0\<close>.
\<close>

definition is_space :: "char \<Rightarrow> bool" where
  "is_space c = ((9 \<le> code_point c \<and> code_point c \<le> 13) \<or> (28 \<le> code_point c \<and> code_point c \<le> 32)
                 \<or> code_point c = 133 \<or> code_point c = 160)"

text \<open>
  \<^verbatim>\<open>lower\<close> maps each upper-case letter to the letter 32 code_point points above it, which
  differs from it in bit 5 only, and keeps every other code_point point.
\<close>

definition py_lower_char :: "char \<Rightarrow> char" where
  "py_lower_char c =
     (if is_ascii_upper c \<or> is_latin_upper c
      then (case c of Char b0 b1 b2 b3 b4 b5 b6 b7 \<Rightarrow> Char b0 b1 b2 b3 b4 True b6 b7)
      else c)"

text \<open>
  \<^verbatim>\<open>capitalize\<close> maps the first code_point point to its title case: a lower-case letter to the
  letter 32 code_point points below it.  For three lower-case letters, the micro sign \<open>0xB5\<close>,
  the sharp s \<open>0xDF\<close> and the y with diaeresis \<open>0xFF\<close>, the title case of Python lies outside
  the code_point points below 256; \<open>has_title\<close> excludes them, \<open>py_upper_char\<close> keeps them, and a
  statement about \<open>py_capitalize\<close> is one about the strings that start with none of them.
\<close>

definition has_title :: "char \<Rightarrow> bool" where
  "has_title c = (code_point c \<noteq> 181 \<and> code_point c \<noteq> 223 \<and> code_point c \<noteq> 255)"


definition py_lower :: "string \<Rightarrow> string" where
  "py_lower s = map py_lower_char s"


definition py_strip :: "string \<Rightarrow> string" where
  "py_strip s = rev (dropWhile is_space (rev (dropWhile is_space s)))"




text \<open>
  \<^verbatim>\<open>s.split(sep)\<close> for a separator that is not empty: the text is cut at each
  occurrence of \<open>sep\<close>, found from the left and not overlapping.  The second argument is
  the segment being read.
\<close>

function py_split_from :: "string \<Rightarrow> string \<Rightarrow> string \<Rightarrow> string list" where
  "py_split_from sep cur [] = [cur]"
| "py_split_from sep cur (c # cs) =
     (if sep \<noteq> [] \<and> take (length sep) (c # cs) = sep
      then cur # py_split_from sep [] (drop (length sep) (c # cs))
      else py_split_from sep (cur @ [c]) cs)"
  by pat_completeness auto
termination
  by (relation "measure (\<lambda>(sep, cur, s). length s)") auto

definition py_split :: "string \<Rightarrow> string \<Rightarrow> string list" where
  "py_split s sep = py_split_from sep [] s"

text \<open>
  \<^verbatim>\<open>re.findall(r'#\w+', text)\<close>: scanning from the left, a \<open>#\<close> followed by at least one
  word character matches together with the longest run of word characters after it.
\<close>

function findall_hashtags :: "string \<Rightarrow> string list" where
  "findall_hashtags [] = []"
| "findall_hashtags (c # cs) =
     (if c = CHR ''#'' \<and> takeWhile is_word_char cs \<noteq> []
      then (c # takeWhile is_word_char cs) # findall_hashtags (dropWhile is_word_char cs)
      else findall_hashtags cs)"
  by pat_completeness auto
termination
  by (relation "measure length") (auto simp: length_dropWhile_le less_Suc_eq_le)

text \<open>A whole string matches \<^verbatim>\<open>#\w+\<close>.\<close>

definition is_hashtag :: "string \<Rightarrow> bool" where
  "is_hashtag s = (case s of [] \<Rightarrow> False | c # w \<Rightarrow> c = CHR ''#'' \<and> w \<noteq> [] \<and> list_all is_word_char w)"


text \<open>Decimal digits of a number, as \<^verbatim>\<open>str\<close> prints an integer status code.\<close>

function show_nat :: "nat \<Rightarrow> string" where
  "show_nat n =
     (if n < 10 then [char_of (48 + n)]
      else show_nat (n div 10) @ [char_of (48 + n mod 10)])"
  by pat_completeness auto
termination
  by (relation "measure id") auto

declare show_nat.simps [simp del]

section \<open>Exceptions\<close>

text \<open>
  \<open>HTTPException\<close> carries the status code and the detail.  \<open>CollaboratorError\<close> is any
  exception of the text generator, \<open>JSONDecodeError\<close> the one of \<^verbatim>\<open>json.loads\<close>, \<open>TypeError\<close>
  the one of an operator applied to \<^verbatim>\<open>None\<close>; each carries its message.  \<open>KeyError\<close> carries
  the key a dictionary does not have.  \<open>str_exn\<close> is \<^verbatim>\<open>str(e)\<close>: for an \<open>HTTPException\<close> the
  status code, a colon and the detail, for a \<open>KeyError\<close> the key between quotes.
\<close>

datatype exn =
    HTTPException nat string
  | CollaboratorError string
  | JSONDecodeError string
  | TypeError string
  | KeyError string

fun str_exn :: "exn \<Rightarrow> string" where
  "str_exn (HTTPException code detail) = show_nat code @ '': '' @ detail"
| "str_exn (CollaboratorError msg) = msg"
| "str_exn (JSONDecodeError msg) = msg"
| "str_exn (TypeError msg) = msg"
| "str_exn (KeyError k) = [CHR 0x27] @ k @ [CHR 0x27]"

section \<open>The revision workflow\<close>

text \<open>
  A message of a channel is its identifier and its text.  A node writes a list of
  items: a message it read from the channel, which carries its identifier, or a text or
  message without identifier, which is new.
\<close>

type_synonym message = "nat \<times> string"

datatype item = Existing nat string | New string

fun item_content :: "item \<Rightarrow> string" where
  "item_content (Existing i t) = t"
| "item_content (New t) = t"

definition as_items :: "message list \<Rightarrow> item list" where
  "as_items ms = map (\<lambda>(i, t). Existing i t) ms"

text \<open>The workflow state of \<^verbatim>\<open>conversation.py\<close>.\<close>

record State =
  topic :: string
  content_length :: string
  writing_style :: string
  generated_post :: "message list"
  human_feedback :: "message list"
  should_continue :: bool

text \<open>
  The text generator is fallible and not deterministic: \<open>model n msgs\<close> is the outcome of
  the \<open>n\<close>-th call of \<^verbatim>\<open>llm.invoke\<close> of the process, on the messages \<open>msgs\<close>.  The
  messages are given as the parts they are put together from, in order: a text, or a
  message of a channel, which the template prints with its identifier.
\<close>

datatype part = Text string | Message message

type_synonym llm = "nat \<Rightarrow> part list \<Rightarrow> exn + string"

text \<open>What a node returns: the channels it writes.\<close>

record update =
  u_generated_post :: "item list option"
  u_human_feedback :: "item list option"
  u_should_continue :: "bool option"

definition writer_persona :: string where
  "writer_persona =
     ''You are an expert content writer who specializes in expanding ''
     @ ''user ideas into engaging, well-structured content. You excel ''
     @ ''at taking initial concepts, details, and rough ideas and transforming ''
     @ ''them into polished, professional content while preserving the ''
     @ ''user's original intent and voice. You work collaboratively with ''
     @ ''human feedback to continuously improve the content.''"

text \<open>
  The prompt of \<^verbatim>\<open>content_generator\<close>: the texts of its template with, between them,
  the topic, the length, the style clause, the latest feedback message and the style
  instruction.
\<close>

definition content_prompt :: "State \<Rightarrow> part list" where
  "content_prompt st =
     (let feedback = human_feedback st;
          style_instruction =
            (if py_strip (writing_style st) \<noteq> [] then ''Writing Style: '' @ writing_style st else [])
      in [Text (''\<newline>''
                @ ''\<newline>''
                @ ''        Content Ideas & Details: ''),
          Text (topic st),
          Text (''\<newline>''
                @ ''        Content Length: ''),
          Text (content_length st),
          Text (''\<newline>''
                @ ''        ''),
          Text style_instruction,
          Text (''\<newline>''
                @ ''        Human Feedback: ''),
          (if feedback \<noteq> [] then Message (last feedback) else Text ''No feedback yet''),
          Text (''\<newline>''
                @ ''\<newline>''
                @ ''        The user has provided their content ideas and details ''
                @ ''above. Your task is to expand on these ideas and create a structured, ''
                @ ''engaging content post. \<newline>''
                @ ''        \<newline>''
                @ ''        Instructions:\<newline>''
                @ ''        - Take the user's ideas, points, and details as your ''
                @ ''foundation\<newline>''
                @ ''        - Expand and develop their concepts into a well-structured ''
                @ ''post\<newline>''
                @ ''        - Maintain their intended message while enhancing clarity ''
                @ ''and engagement\<newline>''
                @ ''        - If they provided specific points, examples, or experiences, ''
                @ ''incorporate and elaborate on them\<newline>''
                @ ''        - Create compelling hooks, smooth transitions, and strong ''
                @ ''conclusions\<newline>''
                @ ''        - Ensure the content matches the desired length and ''
                @ ''writing style\<newline>''
                @ ''        ''),
          Text (if py_strip (writing_style st) \<noteq> []
                then '' Follow the specified writing style carefully.'' else []),
          Text (''\<newline>''
                @ ''\<newline>''
                @ ''        Consider previous human feedback to refine the response ''
                @ ''and make improvements.\<newline>''
                @ ''    '')])"

definition content_generator :: "llm \<Rightarrow> nat \<Rightarrow> State \<Rightarrow> exn + update" where
  "content_generator model n st =
     (let feedback = human_feedback st
      in case model n (Text writer_persona # content_prompt st) of
           Inl e \<Rightarrow> Inl e
         | Inr generated_content_post \<Rightarrow>
             Inr \<lparr>u_generated_post = Some [New generated_content_post],
                  u_human_feedback = Some (as_items feedback),
                  u_should_continue = None\<rparr>)"

text \<open>
  \<^verbatim>\<open>feedback_collector\<close> once \<^verbatim>\<open>interrupt\<close> has returned the feedback \<open>user_feedback\<close>.
\<close>

definition feedback_collector :: "State \<Rightarrow> string \<Rightarrow> update" where
  "feedback_collector st user_feedback =
     (let updated_feedback = as_items (human_feedback st) @ [New user_feedback]
      in \<lparr>u_generated_post = None,
          u_human_feedback = Some updated_feedback,
          u_should_continue = Some (py_lower user_feedback \<noteq> ''done'')\<rparr>)"

definition content_finalizer :: "State \<Rightarrow> update" where
  "content_finalizer st =
     \<lparr>u_generated_post = Some (as_items (generated_post st)),
      u_human_feedback = Some (as_items (human_feedback st)),
      u_should_continue = None\<rparr>"

definition should_continue_feedback :: "State \<Rightarrow> string" where
  "should_continue_feedback st =
     (if should_continue st then ''content_generator'' else ''content_finalizer'')"

text \<open>
  The reducer of the two message channels merges by identifier: a written message
  whose identifier is in the channel replaces that message in place, any other item is
  appended, a new one under an identifier the channel does not hold yet.
\<close>

definition fresh_id :: "message list \<Rightarrow> nat" where
  "fresh_id ms = Suc (fold max (map fst ms) 0)"

fun merge_item :: "item \<Rightarrow> message list \<Rightarrow> message list" where
  "merge_item (New t) ms = ms @ [(fresh_id ms, t)]"
| "merge_item (Existing i t) ms =
     (if i \<in> set (map fst ms) then map (\<lambda>(j, s). if j = i then (i, t) else (j, s)) ms
      else ms @ [(i, t)])"

definition add_messages :: "message list \<Rightarrow> item list \<Rightarrow> message list" where
  "add_messages left right = fold merge_item right left"

definition apply_update :: "State \<Rightarrow> update \<Rightarrow> State" where
  "apply_update st u =
     st\<lparr>generated_post :=
          (case u_generated_post u of None \<Rightarrow> generated_post st
           | Some ps \<Rightarrow> add_messages (generated_post st) ps),
        human_feedback :=
          (case u_human_feedback u of None \<Rightarrow> human_feedback st
           | Some fs \<Rightarrow> add_messages (human_feedback st) fs),
        should_continue :=
          (case u_should_continue u of None \<Rightarrow> should_continue st | Some b \<Rightarrow> b)\<rparr>"

text \<open>The feedback history of a workflow state, oldest first.\<close>

definition history :: "State \<Rightarrow> string list" where
  "history st = map snd (human_feedback st)"

subsection \<open>The compiled graph and its checkpointer\<close>

text \<open>
  The graph runs \<^verbatim>\<open>content_generator\<close>, then \<^verbatim>\<open>feedback_collector\<close>, whose \<^verbatim>\<open>interrupt\<close>
  suspends the run; resumed with a feedback, \<^verbatim>\<open>feedback_collector\<close> runs from its start
  with \<^verbatim>\<open>interrupt\<close> returning the feedback, and \<^verbatim>\<open>should_continue_feedback\<close> routes to
  \<^verbatim>\<open>content_generator\<close> or to \<^verbatim>\<open>content_finalizer\<close>, the finish point.  The checkpointer
  keeps, for each thread, the state and the node to run next; it saves them after every
  node that returns, so a node that raises leaves the checkpoint of the node before it.
  A run yields one chunk for each node that returns, the node's name and what it wrote,
  and for a suspension the chunk \<^verbatim>\<open>__interrupt__\<close>, whose value is the tuple of the pending
  interrupts.  \<open>EmptyStart\<close> marks the checkpoint of a thread that was resumed before it was
  ever started: its state has no key, and \<^verbatim>\<open>content_generator\<close>, which is next, raises on
  reading the topic.
\<close>

datatype node = ContentGenerator | FeedbackCollector | ContentFinalizer | Finished | EmptyStart

record checkpoint =
  cp_values :: State
  cp_next :: node

record interrupt_payload =
  i_generated_post :: "message list"
  i_message :: string

datatype chunk_value = NodeUpdate update | Interrupts "interrupt_payload list"

type_synonym chunk = "string \<times> chunk_value"

definition generate_then_suspend ::
  "llm \<Rightarrow> nat \<Rightarrow> State \<Rightarrow> chunk list \<Rightarrow> (exn + chunk list) \<times> checkpoint \<times> nat" where
  "generate_then_suspend model n st before =
     (case content_generator model n st of
        Inl e \<Rightarrow> (Inl e, \<lparr>cp_values = st, cp_next = ContentGenerator\<rparr>, Suc n)
      | Inr u \<Rightarrow>
          (let st' = apply_update st u
           in (Inr (before @
                    [(''content_generator'', NodeUpdate u),
                     (''__interrupt__'',
                      Interrupts [\<lparr>i_generated_post = generated_post st',
                                   i_message = ''Provide feedback or type 'done' to finish''\<rparr>])]),
               \<lparr>cp_values = st', cp_next = FeedbackCollector\<rparr>, Suc n)))"

text \<open>The channels of a state with no key: both lists are empty.\<close>

definition empty_state :: State where
  "empty_state =
     \<lparr>topic = [], content_length = [], writing_style = [], generated_post = [],
      human_feedback = [], should_continue = True\<rparr>"

text \<open>\<^verbatim>\<open>app.stream(initial_state, config)\<close> on a thread with no checkpoint.\<close>

definition stream_start :: "llm \<Rightarrow> nat \<Rightarrow> State \<Rightarrow> (exn + chunk list) \<times> checkpoint \<times> nat" where
  "stream_start model n initial_state = generate_then_suspend model n initial_state []"

definition finalize :: "State \<Rightarrow> chunk list \<Rightarrow> nat \<Rightarrow> (exn + chunk list) \<times> checkpoint \<times> nat" where
  "finalize st before n =
     (let u = content_finalizer st
      in (Inr (before @ [(''content_finalizer'', NodeUpdate u)]),
          \<lparr>cp_values = apply_update st u, cp_next = Finished\<rparr>, n))"

text \<open>
  \<^verbatim>\<open>app.stream(Command(resume=feedback), config)\<close> on a thread with the checkpoint \<open>cp\<close>.
  A thread suspended in \<^verbatim>\<open>feedback_collector\<close> takes the feedback.  A thread whose
  generation raised runs the generation again and suspends; a finished thread has
  nothing to run; a thread on the empty state raises \<open>KeyError\<close> before the generator is
  called.
\<close>

definition stream_resume ::
  "llm \<Rightarrow> nat \<Rightarrow> checkpoint \<Rightarrow> string \<Rightarrow> (exn + chunk list) \<times> checkpoint \<times> nat" where
  "stream_resume model n cp feedback =
     (case cp_next cp of
        FeedbackCollector \<Rightarrow>
          (let u = feedback_collector (cp_values cp) feedback;
               st = apply_update (cp_values cp) u;
               before = [(''feedback_collector'', NodeUpdate u)]
           in if should_continue_feedback st = ''content_generator''
              then generate_then_suspend model n st before
              else finalize st before n)
      | ContentGenerator \<Rightarrow> generate_then_suspend model n (cp_values cp) []
      | ContentFinalizer \<Rightarrow> finalize (cp_values cp) [] n
      | Finished \<Rightarrow> (Inr [], cp, n)
      | EmptyStart \<Rightarrow> (Inl (KeyError ''topic''), cp, n))"

section \<open>The session store and the request handlers\<close>

text \<open>
  An entry of \<^verbatim>\<open>active_sessions\<close>.  A time is a number of microseconds; the two time
  stamps are read with \<^verbatim>\<open>dict.get\<close>, so each may be absent.
\<close>

record session_data =
  thread_config :: string
  state :: State
  current_post :: string
  status :: string
  created_at :: "int option"
  last_activity :: "int option"

text \<open>
  What the process holds: the dictionary \<^verbatim>\<open>active_sessions\<close> in insertion order (its keys
  are distinct), the checkpoints of the graph by thread, and the number of calls of the
  text generator made so far.
\<close>

record world =
  active_sessions :: "(string \<times> session_data) list"
  checkpointer :: "(string \<times> checkpoint) list"
  llm_calls :: nat

definition SESSION_TIMEOUT_MINUTES :: int where
  "SESSION_TIMEOUT_MINUTES = 5"

definition timedelta_minutes :: "int \<Rightarrow> int" where
  "timedelta_minutes m = m * 60000000"

record AIAgentResponse =
  r_session_id :: string
  r_generated_post :: string
  r_status :: string
  r_success :: bool
  r_message :: "string option"

record AIAgentFeedbackResponse =
  fr_session_id :: string
  fr_generated_post :: "string option"
  fr_status :: string
  fr_success :: bool
  fr_message :: "string option"

text \<open>
  \<^verbatim>\<open>value["generated_post"]\<close> where \<^verbatim>\<open>"generated_post" in value\<close> holds: the channel a node
  wrote.  The value of an \<^verbatim>\<open>__interrupt__\<close> chunk is a tuple of interrupts, which holds no
  string.
\<close>

fun value_generated_post :: "chunk_value \<Rightarrow> item list option" where
  "value_generated_post (NodeUpdate u) = u_generated_post u"
| "value_generated_post (Interrupts is) = None"

text \<open>
  The loop of both handlers over the chunks of a run: the result is the text of
  the last post of the last chunk that holds one.
\<close>

fun read_chunks :: "string \<Rightarrow> chunk list \<Rightarrow> string" where
  "read_chunks post [] = post"
| "read_chunks post ((node_id, v) # chunks) =
     read_chunks
       (if node_id = ''__interrupt__'' then
          (case value_generated_post v of
             Some (p # ps) \<Rightarrow> item_content (last (p # ps))
           | _ \<Rightarrow> post)
        else if node_id = ''content_generator'' \<and> value_generated_post v \<noteq> None then
          (case value_generated_post v of
             Some (p # ps) \<Rightarrow> item_content (last (p # ps))
           | _ \<Rightarrow> post)
        else post)
       chunks"

text \<open>
  \<^verbatim>\<open>start_ai_agent_session\<close>.  \<open>session_id\<close> is the identifier \<^verbatim>\<open>uuid4\<close> returned, \<open>t1\<close> and
  \<open>t2\<close> are the two readings of the clock.  The body of the \<^verbatim>\<open>try\<close> comes first, then the
  handler with its \<^verbatim>\<open>except Exception\<close>.
\<close>

definition start_body ::
  "llm \<Rightarrow> string \<Rightarrow> int \<Rightarrow> int \<Rightarrow> string \<Rightarrow> string \<Rightarrow> string \<Rightarrow> world
     \<Rightarrow> (exn + AIAgentResponse) \<times> world" where
  "start_body model session_id t1 t2 req_topic req_content_length req_writing_style w =
     (let config = session_id;
          initial_state = \<lparr>topic = req_topic, content_length = req_content_length,
                           writing_style = req_writing_style, generated_post = [],
                           human_feedback = [], should_continue = True\<rparr>
      in case stream_start model (llm_calls w) initial_state of
           (res, cp, n) \<Rightarrow>
             (let w1 = w\<lparr>checkpointer := AList.update config cp (checkpointer w),
                         llm_calls := n\<rparr>
              in case res of
                   Inl e \<Rightarrow> (Inl e, w1)
                 | Inr chunks \<Rightarrow>
                     (let post = read_chunks [] chunks
                      in (Inr \<lparr>r_session_id = session_id,
                               r_generated_post = post,
                               r_status = ''waiting_feedback'',
                               r_success = True,
                               r_message = Some ''AI agent session started. Content generated, waiting for feedback.''\<rparr>,
                          w1\<lparr>active_sessions :=
                               AList.update session_id
                                 \<lparr>thread_config = config, state = initial_state,
                                  current_post = post,
                                  status = ''waiting_feedback'',
                                  created_at = Some t1, last_activity = Some t2\<rparr>
                                 (active_sessions w1)\<rparr>))))"

definition start_ai_agent_session ::
  "llm \<Rightarrow> string \<Rightarrow> int \<Rightarrow> int \<Rightarrow> string \<Rightarrow> string \<Rightarrow> string \<Rightarrow> world
     \<Rightarrow> (exn + AIAgentResponse) \<times> world" where
  "start_ai_agent_session model session_id t1 t2 req_topic req_content_length req_writing_style w =
     (case start_body model session_id t1 t2 req_topic req_content_length req_writing_style w of
        (Inl e, w') \<Rightarrow>
          (Inl (HTTPException 500 (''Error starting AI agent session: '' @ str_exn e)), w')
      | (Inr r, w') \<Rightarrow> (Inr r, w'))"

text \<open>
  \<^verbatim>\<open>provide_ai_agent_feedback\<close>.  \<open>now\<close> is the reading of the clock.  The \<^verbatim>\<open>try\<close> encloses
  the whole body, the test for the session included.  For a session whose thread has no
  checkpoint the runtime starts the graph on the empty state: \<^verbatim>\<open>content_generator\<close> raises
  \<open>KeyError\<close> on the topic, and the thread is left with the checkpoint of the empty state.
\<close>

definition feedback_body ::
  "llm \<Rightarrow> int \<Rightarrow> string \<Rightarrow> string \<Rightarrow> world \<Rightarrow> (exn + AIAgentFeedbackResponse) \<times> world" where
  "feedback_body model now session_id feedback w =
     (case map_of (active_sessions w) session_id of
        None \<Rightarrow> (Inl (HTTPException 404 ''Session not found''), w)
      | Some sd \<Rightarrow>
          (if py_lower feedback = ''done''
           then (Inr \<lparr>fr_session_id = session_id,
                     fr_generated_post = Some (current_post sd),
                     fr_status = ''completed'',
                     fr_success = True,
                     fr_message = Some ''Content finalized successfully!''\<rparr>,
                 w\<lparr>active_sessions :=
                      AList.update session_id (sd\<lparr>status := ''completed''\<rparr>) (active_sessions w)\<rparr>)
           else
             (case map_of (checkpointer w) (thread_config sd) of
                None \<Rightarrow>
                  (Inl (KeyError ''topic''),
                   w\<lparr>checkpointer :=
                        AList.update (thread_config sd)
                          \<lparr>cp_values = empty_state, cp_next = EmptyStart\<rparr> (checkpointer w)\<rparr>)
              | Some cp \<Rightarrow>
                  (case stream_resume model (llm_calls w) cp feedback of
                     (res, cp', n) \<Rightarrow>
                       (let w1 = w\<lparr>checkpointer :=
                                      AList.update (thread_config sd) cp' (checkpointer w),
                                    llm_calls := n\<rparr>
                        in case res of
                             Inl e \<Rightarrow> (Inl e, w1)
                           | Inr chunks \<Rightarrow>
                               (let post = read_chunks [] chunks
                                in (Inr \<lparr>fr_session_id = session_id,
                                         fr_generated_post = Some post,
                                         fr_status = ''waiting_feedback'',
                                         fr_success = True,
                                         fr_message = Some ''Feedback processed. New content generated, waiting for more feedback.''\<rparr>,
                                    w1\<lparr>active_sessions :=
                                         AList.update session_id
                                           (sd\<lparr>current_post := post,
                                               last_activity := Some now\<rparr>)
                                           (active_sessions w1)\<rparr>)))))))"

definition provide_ai_agent_feedback ::
  "llm \<Rightarrow> int \<Rightarrow> string \<Rightarrow> string \<Rightarrow> world \<Rightarrow> (exn + AIAgentFeedbackResponse) \<times> world" where
  "provide_ai_agent_feedback model now session_id feedback w =
     (case feedback_body model now session_id feedback w of
        (Inl e, w') \<Rightarrow>
          (Inl (HTTPException 500 (''Error processing feedback: '' @ str_exn e)), w')
      | (Inr r, w') \<Rightarrow> (Inr r, w'))"

text \<open>\<^verbatim>\<open>get_ai_agent_session\<close>: the draft and the status of a session.\<close>

definition get_ai_agent_session :: "string \<Rightarrow> world \<Rightarrow> exn + (string \<times> string)" where
  "get_ai_agent_session session_id w =
     (case map_of (active_sessions w) session_id of
        None \<Rightarrow> Inl (HTTPException 404 ''Session not found'')
      | Some sd \<Rightarrow> Inr (current_post sd, status sd))"

definition delete_ai_agent_session :: "string \<Rightarrow> world \<Rightarrow> (exn + bool) \<times> world" where
  "delete_ai_agent_session session_id w =
     (case map_of (active_sessions w) session_id of
        None \<Rightarrow> (Inl (HTTPException 404 ''Session not found''), w)
      | Some sd \<Rightarrow>
          (Inr True, w\<lparr>active_sessions := AList.delete session_id (active_sessions w)\<rparr>))"

text \<open>
  \<^verbatim>\<open>cleanup_expired_sessions\<close>, \<open>current_time\<close> being the reading of the clock.  The first
  loop collects the identifiers; a session with neither time stamp makes the subtraction
  raise.  The second loop deletes the collected keys, each of which is in the
  dictionary.
\<close>

definition session_last_activity :: "session_data \<Rightarrow> int option" where
  "session_last_activity sd =
     (case last_activity sd of Some t \<Rightarrow> Some t | None \<Rightarrow> created_at sd)"

fun collect_expired ::
  "int \<Rightarrow> string list \<Rightarrow> (string \<times> session_data) list \<Rightarrow> exn + string list" where
  "collect_expired current_time expired_sessions [] = Inr expired_sessions"
| "collect_expired current_time expired_sessions ((session_id, sd) # items) =
     (case session_last_activity sd of
        None \<Rightarrow> Inl (TypeError ''unsupported operand type(s) for -'')
      | Some la \<Rightarrow>
          collect_expired current_time
            (if current_time - la > timedelta_minutes SESSION_TIMEOUT_MINUTES
             then expired_sessions @ [session_id] else expired_sessions)
            items)"

definition cleanup_expired_sessions :: "int \<Rightarrow> world \<Rightarrow> (exn + nat) \<times> world" where
  "cleanup_expired_sessions current_time w =
     (case collect_expired current_time [] (active_sessions w) of
        Inl e \<Rightarrow> (Inl e, w)
      | Inr expired_sessions \<Rightarrow>
          (Inr (length expired_sessions),
           w\<lparr>active_sessions := fold AList.delete expired_sessions (active_sessions w)\<rparr>))"

text \<open>\<^verbatim>\<open>get_session_stats\<close>: the total, the expired and the healthy sessions; nothing is removed.\<close>

fun count_expired :: "int \<Rightarrow> nat \<Rightarrow> session_data list \<Rightarrow> exn + nat" where
  "count_expired current_time expired_sessions [] = Inr expired_sessions"
| "count_expired current_time expired_sessions (sd # vals) =
     (case session_last_activity sd of
        None \<Rightarrow> Inl (TypeError ''unsupported operand type(s) for -'')
      | Some la \<Rightarrow>
          count_expired current_time
            (if current_time - la > timedelta_minutes SESSION_TIMEOUT_MINUTES
             then expired_sessions + 1 else expired_sessions)
            vals)"

definition get_session_stats :: "int \<Rightarrow> world \<Rightarrow> exn + (nat \<times> nat \<times> int \<times> int)" where
  "get_session_stats current_time w =
     (let total_sessions = length (active_sessions w)
      in case count_expired current_time 0 (map snd (active_sessions w)) of
           Inl e \<Rightarrow> Inl e
         | Inr expired_sessions \<Rightarrow>
             Inr (total_sessions, expired_sessions,
                  int total_sessions - int expired_sessions, SESSION_TIMEOUT_MINUTES))"

subsection \<open>The states the process reaches\<close>

text \<open>
  The process starts with no session and no thread.  Every request and every sweep
  leads from a reachable state to a reachable one; a new session gets an identifier that
  names no session and no thread yet.
\<close>

definition init_world :: world where
  "init_world = \<lparr>active_sessions = [], checkpointer = [], llm_calls = 0\<rparr>"

inductive reachable :: "llm \<Rightarrow> world \<Rightarrow> bool" for model :: llm where
  reach_init: "reachable model init_world"
| reach_start:
    "reachable model w \<Longrightarrow> map_of (active_sessions w) sid = None
       \<Longrightarrow> map_of (checkpointer w) sid = None
       \<Longrightarrow> reachable model (snd (start_ai_agent_session model sid t1 t2 tp cl ws w))"
| reach_feedback:
    "reachable model w \<Longrightarrow> reachable model (snd (provide_ai_agent_feedback model now sid f w))"
| reach_delete:
    "reachable model w \<Longrightarrow> reachable model (snd (delete_ai_agent_session sid w))"
| reach_cleanup:
    "reachable model w \<Longrightarrow> reachable model (snd (cleanup_expired_sessions now w))"

text \<open>
  A session holds a resumption token when its thread has a checkpoint that can be
  resumed, and it awaits feedback when that checkpoint is suspended in
  \<^verbatim>\<open>feedback_collector\<close>.
\<close>

definition thread_checkpoint :: "world \<Rightarrow> string \<Rightarrow> checkpoint option" where
  "thread_checkpoint w session_id =
     (case map_of (active_sessions w) session_id of
        None \<Rightarrow> None
      | Some sd \<Rightarrow> map_of (checkpointer w) (thread_config sd))"

definition has_token :: "world \<Rightarrow> string \<Rightarrow> bool" where
  "has_token w session_id =
     (case thread_checkpoint w session_id of None \<Rightarrow> False | Some cp \<Rightarrow> cp_next cp \<noteq> Finished)"

definition suspended_at_gate :: "world \<Rightarrow> string \<Rightarrow> bool" where
  "suspended_at_gate w session_id =
     (case thread_checkpoint w session_id of
        None \<Rightarrow> False
      | Some cp \<Rightarrow> cp_next cp = FeedbackCollector)"

definition session_status :: "world \<Rightarrow> string \<Rightarrow> string option" where
  "session_status w session_id = map_option status (map_of (active_sessions w) session_id)"

definition session_draft :: "world \<Rightarrow> string \<Rightarrow> string option" where
  "session_draft w session_id = map_option current_post (map_of (active_sessions w) session_id)"

text \<open>The feedback history of a session: the one its thread's checkpoint holds.\<close>

definition session_history :: "world \<Rightarrow> string \<Rightarrow> string list option" where
  "session_history w session_id = map_option (history \<circ> cp_values) (thread_checkpoint w session_id)"

text \<open>
  A sequence of feedback submissions to one session, each of which succeeds; \<open>None\<close>
  when one of them fails.  The clock reads \<open>now\<close>, \<open>now + 1\<close>, ...
\<close>

fun submit_all :: "llm \<Rightarrow> int \<Rightarrow> string \<Rightarrow> string list \<Rightarrow> world \<Rightarrow> world option" where
  "submit_all model now sid [] w = Some w"
| "submit_all model now sid (f # fs) w =
     (case provide_ai_agent_feedback model now sid f w of
        (Inl e, w') \<Rightarrow> None
      | (Inr r, w') \<Rightarrow> submit_all model (now + 1) sid fs w')"

text \<open>
  What the process does after a session \<open>sid\<close> was started in the state \<open>w0\<close>:
  \<open>served model sid w0 fs w\<close> holds when requests and sweeps lead from \<open>w0\<close> to \<open>w\<close>, the
  submissions to the session \<open>sid\<close> among them are the feedbacks \<open>fs\<close>, in this order,
  and each of these submissions succeeded.  The other requests are submissions to and
  starts of other sessions, deletions of any session, and sweeps.
\<close>

inductive served :: "llm \<Rightarrow> string \<Rightarrow> world \<Rightarrow> string list \<Rightarrow> world \<Rightarrow> bool"
  for model :: llm and sid :: string and w0 :: world where
  served_none: "served model sid w0 [] w0"
| served_submit:
    "served model sid w0 fs w
       \<Longrightarrow> provide_ai_agent_feedback model now sid f w = (Inr r, w')
       \<Longrightarrow> served model sid w0 (fs @ [f]) w'"
| served_other_submit:
    "served model sid w0 fs w \<Longrightarrow> sid' \<noteq> sid
       \<Longrightarrow> served model sid w0 fs (snd (provide_ai_agent_feedback model now sid' f w))"
| served_other_start:
    "served model sid w0 fs w \<Longrightarrow> sid' \<noteq> sid
       \<Longrightarrow> map_of (active_sessions w) sid' = None \<Longrightarrow> map_of (checkpointer w) sid' = None
       \<Longrightarrow> served model sid w0 fs (snd (start_ai_agent_session model sid' t1 t2 tp cl ws w))"
| served_delete:
    "served model sid w0 fs w
       \<Longrightarrow> served model sid w0 fs (snd (delete_ai_agent_session sid' w))"
| served_cleanup:
    "served model sid w0 fs w
       \<Longrightarrow> served model sid w0 fs (snd (cleanup_expired_sessions now w))"

section \<open>The optimization agent\<close>

datatype json =
    JNull
  | JBool bool
  | JInt int
  | JStr string
  | JList "json list"
  | JDict "(string \<times> json) list"

text \<open>
  The agent's text generator and \<^verbatim>\<open>json.loads\<close>: both are fallible and are parameters of
  the agent's methods.  The generator is a function of its messages, given as the
  system text followed by the values that the template of the prompt embeds, in order.
\<close>

type_synonym generator = "string list \<Rightarrow> exn + string"








text \<open>\<^verbatim>\<open>xs[:count]\<close>: a count below zero counts from the end.\<close>

definition py_slice_to :: "'a list \<Rightarrow> int \<Rightarrow> 'a list" where
  "py_slice_to xs count =
     (if 0 \<le> count then take (nat count) xs else take (length xs - nat (- count)) xs)"

definition show_int :: "int \<Rightarrow> string" where
  "show_int i = (if i < 0 then CHR ''-'' # show_nat (nat (- i)) else show_nat (nat i))"

definition hashtags_body :: "generator \<Rightarrow> string \<Rightarrow> string \<Rightarrow> int \<Rightarrow> exn + string list" where
  "hashtags_body gen content tp count =
     (case gen [''You are a content hashtag expert.'', content, tp, show_int count] of
        Inl e \<Rightarrow> Inl e
      | Inr response_content \<Rightarrow>
          (let hashtags = findall_hashtags response_content
           in Inr (if hashtags \<noteq> [] then py_slice_to hashtags count
                   else [''#Content'', ''#Professional'', ''#Growth''])))"

definition suggest_hashtags_only :: "generator \<Rightarrow> string \<Rightarrow> string \<Rightarrow> int \<Rightarrow> string list" where
  "suggest_hashtags_only gen content tp count =
     (case hashtags_body gen content tp count of
        Inl e \<Rightarrow> [''#Content'', ''#Professional'', ''#Growth'', ''#Success'', ''#Business'']
      | Inr hashtags \<Rightarrow> hashtags)"

section \<open>Notions used by the statements\<close>

text \<open>The identifiers of each message channel are distinct.\<close>

definition wf_state :: "State \<Rightarrow> bool" where
  "wf_state st = (distinct (map fst (generated_post st)) \<and> distinct (map fst (human_feedback st)))"

text \<open>The state after \<^verbatim>\<open>feedback_collector\<close> has taken a feedback.\<close>

definition collected :: "State \<Rightarrow> string \<Rightarrow> State" where
  "collected st feedback = apply_update st (feedback_collector st feedback)"

text \<open>
  The age of a session at an instant, read from the two time stamps of its record: the
  time since its last activity, or since its creation when it has no last activity; and
  the test that the age is greater than five minutes, which are 300000000 microseconds.
  A session with neither time stamp has no age.
\<close>

definition session_age :: "int \<Rightarrow> session_data \<Rightarrow> int option" where
  "session_age now sd =
     (case last_activity sd of
        Some active \<Rightarrow> Some (now - active)
      | None \<Rightarrow> (case created_at sd of Some created \<Rightarrow> Some (now - created) | None \<Rightarrow> None))"

definition session_expired :: "int \<Rightarrow> session_data \<Rightarrow> bool" where
  "session_expired now sd = (case session_age now sd of None \<Rightarrow> False | Some age \<Rightarrow> 300000000 < age)"

definition has_time_stamp :: "session_data \<Rightarrow> bool" where
  "has_time_stamp sd = (last_activity sd \<noteq> None \<or> created_at sd \<noteq> None)"




text \<open>
  What every reachable state satisfies: each session is stored under its thread's name,
  its status is one of the two, and its thread holds a checkpoint whose next node is the
  generation or \<^verbatim>\<open>feedback_collector\<close> and whose channels have distinct identifiers.
\<close>

definition session_ok :: "world \<Rightarrow> string \<Rightarrow> session_data \<Rightarrow> bool" where
  "session_ok w sid sd =
     (thread_config sd = sid
      \<and> (status sd = ''waiting_feedback'' \<or> status sd = ''completed'')
      \<and> (\<exists>cp. map_of (checkpointer w) sid = Some cp
             \<and> (cp_next cp = FeedbackCollector \<or> cp_next cp = ContentGenerator)
             \<and> wf_state (cp_values cp)))"

definition store_ok :: "world \<Rightarrow> bool" where
  "store_ok w = (\<forall>sid sd. map_of (active_sessions w) sid = Some sd \<longrightarrow> session_ok w sid sd)"

subsection \<open>Example runs\<close>

text \<open>
  A generator that always answers, its \<open>n\<close>-th answer being \<open>n + 1\<close> letters long, and
  one that answers its first call only.
\<close>

definition echo_llm :: llm where
  "echo_llm n msgs = Inr (replicate (Suc n) CHR ''x'')"

definition failing_llm :: llm where
  "failing_llm n msgs = (if n = 0 then Inr ''x'' else Inl (CollaboratorError ''quota exceeded''))"

text \<open>
  The state after one session was started, and after that session took the feedback
  \<^verbatim>\<open>done\<close>.
\<close>

definition example_state :: State where
  "example_state =
     \<lparr>topic = ''AI in healthcare'', content_length = ''short'', writing_style = [],
      generated_post = [(1, ''x'')], human_feedback = [], should_continue = True\<rparr>"

definition example_session :: session_data where
  "example_session =
     \<lparr>thread_config = ''s1'',
      state = \<lparr>topic = ''AI in healthcare'', content_length = ''short'', writing_style = [],
               generated_post = [], human_feedback = [], should_continue = True\<rparr>,
      current_post = ''x'', status = ''waiting_feedback'',
      created_at = Some 0, last_activity = Some 0\<rparr>"

definition example_created :: world where
  "example_created =
     \<lparr>active_sessions = [(''s1'', example_session)],
      checkpointer = [(''s1'', \<lparr>cp_values = example_state, cp_next = FeedbackCollector\<rparr>)],
      llm_calls = 1\<rparr>"

definition example_completed :: world where
  "example_completed =
     example_created\<lparr>active_sessions := [(''s1'', example_session\<lparr>status := ''completed''\<rparr>)]\<rparr>"



text \<open>The state after the started session took a feedback whose generation raised.\<close>

definition example_failed :: world where
  "example_failed =
     example_created
       \<lparr>checkpointer :=
          [(''s1'', \<lparr>cp_values = example_state\<lparr>human_feedback := [(1, ''make it punchier'')]\<rparr>,
                    cp_next = ContentGenerator\<rparr>)],
        llm_calls := 2\<rparr>"

text \<open>
  A store of five sessions, looked at 500 seconds after the instant 0.  The first was
  created and last active at 0.  The second was created at 0 and last active at 400
  seconds.  The third and the fourth have no last activity and were created at 100 and
  at 300 seconds.  The fifth was last active at 200 seconds, exactly five minutes before.
\<close>

definition example_store :: world where
  "example_store =
     \<lparr>active_sessions =
        [(''old'', example_session\<lparr>thread_config := ''old''\<rparr>),
         (''new'', example_session\<lparr>thread_config := ''new'', last_activity := Some 400000000\<rparr>),
         (''bare_old'', example_session\<lparr>thread_config := ''bare_old'',
              created_at := Some 100000000, last_activity := None\<rparr>),
         (''bare_new'', example_session\<lparr>thread_config := ''bare_new'',
              created_at := Some 300000000, last_activity := None\<rparr>),
         (''edge'', example_session\<lparr>thread_config := ''edge'', last_activity := Some 200000000\<rparr>)],
      checkpointer = [], llm_calls = 3\<rparr>"

definition example_swept :: world where
  "example_swept =
     \<lparr>active_sessions =
        [(''new'', example_session\<lparr>thread_config := ''new'', last_activity := Some 400000000\<rparr>),
         (''bare_new'', example_session\<lparr>thread_config := ''bare_new'',
              created_at := Some 300000000, last_activity := None\<rparr>),
         (''edge'', example_session\<lparr>thread_config := ''edge'', last_activity := Some 200000000\<rparr>)],
      checkpointer = [], llm_calls = 3\<rparr>"

text \<open>
  An answer of the hashtag generator with three hashtags, two of them with the letter
  \<open>0xE9\<close>, an e with an acute accent.
\<close>

definition example_reply :: string where
  "example_reply =
     ''#'' @ [CHR 0xE9] @ ''t'' @ [CHR 0xE9] @ '', #caf'' @ [CHR 0xE9] @ '' and #Care_2''"

section \<open>Character classes\<close>

lemmas char_class_defs =
  code_point_def is_ascii_upper_def is_ascii_lower_def is_ascii_digit_def is_latin_upper_def
  is_latin_lower_def is_word_char_def is_space_def has_title_def

section \<open>The message channels\<close>

lemma fold_max_ge: "a \<le> fold max xs (a::nat)"
  by (induction xs arbitrary: a) (auto intro: order_trans [OF max.cobounded2])

lemma fold_max_mem: "x \<in> set xs \<Longrightarrow> x \<le> fold max xs (a::nat)"
proof (induction xs arbitrary: a)
  case Nil
  then show ?case by simp
next
  case (Cons y ys)
  show ?case
  proof (cases "x = y")
    case True
    have "y \<le> max y a" by simp
    also have "\<dots> \<le> fold max ys (max y a)" by (rule fold_max_ge)
    finally show ?thesis using True by simp
  next
    case False
    with Cons show ?thesis by simp
  qed
qed

lemma fresh_id_notin: "fresh_id ms \<notin> fst ` set ms"
proof
  assume "fresh_id ms \<in> fst ` set ms"
  then have "fresh_id ms \<in> set (map fst ms)" by simp
  then have "fresh_id ms \<le> fold max (map fst ms) 0" by (rule fold_max_mem)
  then show False by (simp add: fresh_id_def)
qed

lemma merge_existing_same:
  assumes "distinct (map fst ms)" and "(i, t) \<in> set ms"
  shows "merge_item (Existing i t) ms = ms"
proof -
  have "i \<in> set (map fst ms)" using assms(2) by force
  moreover have "map (\<lambda>(j, s). if j = i then (i, t) else (j, s)) ms = ms"
  proof (rule map_idI)
    fix p assume p: "p \<in> set ms"
    obtain j s where [simp]: "p = (j, s)" by (cases p)
    show "(case p of (j, s) \<Rightarrow> if j = i then (i, t) else (j, s)) = p"
    proof (cases "j = i")
      case True
      then have "s = t" using assms p by (auto dest: eq_key_imp_eq_value)
      with True show ?thesis by simp
    next
      case False
      then show ?thesis by simp
    qed
  qed
  ultimately show ?thesis by simp
qed

lemma fold_merge_existing:
  assumes "distinct (map fst ms)" and "set xs \<subseteq> set ms"
  shows "fold merge_item (as_items xs) ms = ms"
  using assms(2)
proof (induction xs)
  case Nil
  then show ?case by (simp add: as_items_def)
next
  case (Cons x xs)
  obtain i t where [simp]: "x = (i, t)" by (cases x)
  from Cons.prems have "(i, t) \<in> set ms" by simp
  then have "merge_item (Existing i t) ms = ms" by (rule merge_existing_same [OF assms(1)])
  moreover have "fold merge_item (as_items xs) ms = ms" using Cons by simp
  ultimately show ?case by (simp add: as_items_def)
qed

lemma add_messages_existing: "distinct (map fst ms) \<Longrightarrow> add_messages ms (as_items ms) = ms"
  by (simp add: add_messages_def fold_merge_existing)

lemma add_messages_existing_new:
  "distinct (map fst ms) \<Longrightarrow> add_messages ms (as_items ms @ [New t]) = ms @ [(fresh_id ms, t)]"
  by (simp add: add_messages_def fold_merge_existing)

lemma add_messages_new: "add_messages ms [New t] = ms @ [(fresh_id ms, t)]"
  by (simp add: add_messages_def)

lemma distinct_snoc_fresh: "distinct (map fst ms) \<Longrightarrow> distinct (map fst (ms @ [(fresh_id ms, t)]))"
  using fresh_id_notin [of ms] by simp


lemma wf_collected:
  assumes "wf_state st"
  shows "collected st f =
           st\<lparr>human_feedback := human_feedback st @ [(fresh_id (human_feedback st), f)],
              should_continue := (py_lower f \<noteq> ''done'')\<rparr>"
  using assms
  by (simp add: collected_def apply_update_def feedback_collector_def wf_state_def
      add_messages_existing_new)

lemma history_collected: "wf_state st \<Longrightarrow> history (collected st f) = history st @ [f]"
  by (simp add: wf_collected history_def)

lemma wf_state_collected: "wf_state st \<Longrightarrow> wf_state (collected st f)"
  using distinct_snoc_fresh [of "human_feedback st" f]
  by (simp add: wf_collected) (simp add: wf_state_def)

lemma should_continue_collected: "should_continue (collected st f) = (py_lower f \<noteq> ''done'')"
  by (simp add: collected_def apply_update_def feedback_collector_def)

lemma generated_post_collected: "generated_post (collected st f) = generated_post st"
  by (simp add: collected_def apply_update_def feedback_collector_def)

subsection \<open>The nodes and the runs of the graph\<close>

text \<open>The state after \<^verbatim>\<open>content_generator\<close> has produced \<open>text\<close>.\<close>

lemma generator_update:
  assumes "model n (Text writer_persona # content_prompt st) = Inr text"
  shows "content_generator model n st =
           Inr \<lparr>u_generated_post = Some [New text],
                u_human_feedback = Some (as_items (human_feedback st)),
                u_should_continue = None\<rparr>"
  using assms by (simp add: content_generator_def)

lemma generator_raises:
  assumes "model n (Text writer_persona # content_prompt st) = Inl e"
  shows "content_generator model n st = Inl e"
  using assms by (simp add: content_generator_def)

lemma wf_generated:
  assumes "wf_state st"
  shows "apply_update st \<lparr>u_generated_post = Some [New text],
                           u_human_feedback = Some (as_items (human_feedback st)),
                           u_should_continue = None\<rparr>
         = st\<lparr>generated_post := generated_post st @ [(fresh_id (generated_post st), text)]\<rparr>"
  using assms
  by (simp add: apply_update_def wf_state_def add_messages_existing add_messages_new)

lemma read_chunks_append: "read_chunks g (xs @ ys) = read_chunks (read_chunks g xs) ys"
  by (induction xs arbitrary: g) auto

lemma read_chunks_generated:
  "read_chunks g
     [(''content_generator'',
       NodeUpdate \<lparr>u_generated_post = Some [New text], u_human_feedback = fs,
                   u_should_continue = c\<rparr>),
      (''__interrupt__'', Interrupts is)] = text"
  by simp

lemma suspend_ok:
  assumes "model n (Text writer_persona # content_prompt st) = Inr text"
  shows "\<exists>chunks st'. generate_then_suspend model n st before = (Inr chunks, \<lparr>cp_values = st', cp_next = FeedbackCollector\<rparr>, Suc n)
           \<and> read_chunks g chunks = text
           \<and> human_feedback st' = add_messages (human_feedback st) (as_items (human_feedback st))
           \<and> generated_post st' = add_messages (generated_post st) [New text]
           \<and> (wf_state st \<longrightarrow> wf_state st' \<and> history st' = history st)"
proof -
  have "wf_state st \<Longrightarrow> wf_state (st\<lparr>generated_post := generated_post st @ [(fresh_id (generated_post st), text)]\<rparr>)"
    using distinct_snoc_fresh [of "generated_post st" "text"] by (simp add: wf_state_def)
  then show ?thesis
    using assms
    by (simp add: generate_then_suspend_def generator_update Let_def read_chunks_append
        wf_generated history_def) (simp add: apply_update_def)
qed

text \<open>
  The handlers take the draft from the chunk of \<^verbatim>\<open>content_generator\<close>.  The payload of the
  interrupt that follows carries the same draft as its last post, so reading the draft
  from the interrupt's payload would give the same text.
\<close>

lemma interrupt_payload_last_post:
  assumes "model n (Text writer_persona # content_prompt st) = Inr post"
  shows "\<exists>u p cp. generate_then_suspend model n st before =
           (Inr (before @ [(''content_generator'', NodeUpdate u),
                           (''__interrupt__'', Interrupts [p])]), cp, Suc n)
         \<and> read_chunks g (before @ [(''content_generator'', NodeUpdate u),
                           (''__interrupt__'', Interrupts [p])]) = post
         \<and> i_generated_post p \<noteq> [] \<and> snd (last (i_generated_post p)) = post"
  using assms
  by (simp add: generate_then_suspend_def generator_update Let_def read_chunks_append
      apply_update_def add_messages_def)

lemma suspend_raises:
  assumes "model n (Text writer_persona # content_prompt st) = Inl e"
  shows "generate_then_suspend model n st before = (Inl e, \<lparr>cp_values = st, cp_next = ContentGenerator\<rparr>, Suc n)"
  using assms by (simp add: generate_then_suspend_def generator_raises)

lemma suspend_next:
  "cp_next (fst (snd (generate_then_suspend model n st before))) \<in> {ContentGenerator, FeedbackCollector}"
  by (simp add: generate_then_suspend_def Let_def split: sum.splits)

lemma resume_at_gate:
  assumes "cp_next cp = FeedbackCollector" and "py_lower f \<noteq> ''done''"
  shows "stream_resume model n cp f =
           generate_then_suspend model n (collected (cp_values cp) f)
             [(''feedback_collector'', NodeUpdate (feedback_collector (cp_values cp) f))]"
  using assms
  by (simp add: stream_resume_def Let_def should_continue_feedback_def collected_def [symmetric]
      should_continue_collected)


subsection \<open>One feedback submission\<close>

lemma feedback_done:
  assumes "map_of (active_sessions w) sid = Some sd" and "py_lower f = ''done''"
  shows "provide_ai_agent_feedback model now sid f w =
           (Inr \<lparr>fr_session_id = sid, fr_generated_post = Some (current_post sd),
                 fr_status = ''completed'', fr_success = True,
                 fr_message = Some ''Content finalized successfully!''\<rparr>,
            w\<lparr>active_sessions :=
                 AList.update sid (sd\<lparr>status := ''completed''\<rparr>) (active_sessions w)\<rparr>)"
  using assms by (simp add: provide_ai_agent_feedback_def feedback_body_def)

lemma feedback_revised:
  assumes sess: "map_of (active_sessions w) sid = Some sd"
    and cp: "map_of (checkpointer w) (thread_config sd) = Some cp"
    and gate: "cp_next cp = FeedbackCollector"
    and nd: "py_lower f \<noteq> ''done''"
    and gen: "model (llm_calls w) (Text writer_persona # content_prompt (collected (cp_values cp) f)) = Inr post"
  shows "\<exists>st'. provide_ai_agent_feedback model now sid f w =
           (Inr \<lparr>fr_session_id = sid, fr_generated_post = Some post,
                 fr_status = ''waiting_feedback'', fr_success = True,
                 fr_message = Some ''Feedback processed. New content generated, waiting for more feedback.''\<rparr>,
            w\<lparr>checkpointer :=
                 AList.update (thread_config sd) \<lparr>cp_values = st', cp_next = FeedbackCollector\<rparr>
                   (checkpointer w),
               llm_calls := Suc (llm_calls w),
               active_sessions :=
                 AList.update sid (sd\<lparr>current_post := post, last_activity := Some now\<rparr>)
                   (active_sessions w)\<rparr>)
         \<and> (wf_state (cp_values cp) \<longrightarrow> wf_state st' \<and> history st' = history (cp_values cp) @ [f])"
proof -
  let ?before = "[(''feedback_collector'', NodeUpdate (feedback_collector (cp_values cp) f))]"
  obtain chunks st' where
    run: "generate_then_suspend model (llm_calls w) (collected (cp_values cp) f) ?before =
            (Inr chunks, \<lparr>cp_values = st', cp_next = FeedbackCollector\<rparr>, Suc (llm_calls w))"
    and rd: "read_chunks [] chunks = post"
    and wf: "wf_state (collected (cp_values cp) f) \<longrightarrow>
               wf_state st' \<and> history st' = history (collected (cp_values cp) f)"
    using suspend_ok [where model = model and n = "llm_calls w"
        and st = "collected (cp_values cp) f" and before = ?before and g = "[]", OF gen]
    by blast
  have "provide_ai_agent_feedback model now sid f w =
           (Inr \<lparr>fr_session_id = sid, fr_generated_post = Some post,
                 fr_status = ''waiting_feedback'', fr_success = True,
                 fr_message = Some ''Feedback processed. New content generated, waiting for more feedback.''\<rparr>,
            w\<lparr>checkpointer :=
                 AList.update (thread_config sd) \<lparr>cp_values = st', cp_next = FeedbackCollector\<rparr>
                   (checkpointer w),
               llm_calls := Suc (llm_calls w),
               active_sessions :=
                 AList.update sid (sd\<lparr>current_post := post, last_activity := Some now\<rparr>)
                   (active_sessions w)\<rparr>)"
    using sess cp nd rd
    by (simp add: provide_ai_agent_feedback_def feedback_body_def resume_at_gate [OF gate nd] run)
  moreover have "wf_state (cp_values cp) \<longrightarrow> wf_state st' \<and> history st' = history (cp_values cp) @ [f]"
    using wf by (simp add: wf_state_collected history_collected)
  ultimately show ?thesis by blast
qed

lemma feedback_generation_raises:
  assumes sess: "map_of (active_sessions w) sid = Some sd"
    and cp: "map_of (checkpointer w) (thread_config sd) = Some cp"
    and gate: "cp_next cp = FeedbackCollector"
    and nd: "py_lower f \<noteq> ''done''"
    and gen: "model (llm_calls w) (Text writer_persona # content_prompt (collected (cp_values cp) f)) = Inl e"
  shows "provide_ai_agent_feedback model now sid f w =
           (Inl (HTTPException 500 (''Error processing feedback: '' @ str_exn e)),
            w\<lparr>checkpointer :=
                 AList.update (thread_config sd)
                   \<lparr>cp_values = collected (cp_values cp) f, cp_next = ContentGenerator\<rparr>
                   (checkpointer w),
               llm_calls := Suc (llm_calls w)\<rparr>)"
  using sess cp nd
    suspend_raises [where model = model and n = "llm_calls w"
      and st = "collected (cp_values cp) f", OF gen]
  by (simp add: provide_ai_agent_feedback_def feedback_body_def resume_at_gate [OF gate nd])

lemma feedback_regeneration_raises:
  assumes sess: "map_of (active_sessions w) sid = Some sd"
    and cp: "map_of (checkpointer w) (thread_config sd) = Some cp"
    and again: "cp_next cp = ContentGenerator"
    and nd: "py_lower f \<noteq> ''done''"
    and gen: "model (llm_calls w) (Text writer_persona # content_prompt (cp_values cp)) = Inl e"
  shows "provide_ai_agent_feedback model now sid f w =
           (Inl (HTTPException 500 (''Error processing feedback: '' @ str_exn e)),
            w\<lparr>checkpointer :=
                 AList.update (thread_config sd)
                   \<lparr>cp_values = cp_values cp, cp_next = ContentGenerator\<rparr>
                   (checkpointer w),
               llm_calls := Suc (llm_calls w)\<rparr>)"
  using sess cp nd again
    suspend_raises [where model = model and n = "llm_calls w" and st = "cp_values cp", OF gen]
  by (simp add: provide_ai_agent_feedback_def feedback_body_def stream_resume_def)

lemma feedback_status:
  assumes "provide_ai_agent_feedback model now sid f w = (Inr r, w')"
  shows "fr_status r = (if py_lower f = ''done'' then ''completed'' else ''waiting_feedback'')"
  using assms
  by (auto simp: provide_ai_agent_feedback_def feedback_body_def Let_def
      split: option.splits if_splits sum.splits prod.splits)

subsection \<open>Starting a session\<close>

lemma start_created:
  assumes "model (llm_calls w) (Text writer_persona # content_prompt
             \<lparr>topic = tp, content_length = cl, writing_style = ws, generated_post = [],
              human_feedback = [], should_continue = True\<rparr>) = Inr post"
  shows "start_ai_agent_session model sid t1 t2 tp cl ws w =
           (Inr \<lparr>r_session_id = sid, r_generated_post = post, r_status = ''waiting_feedback'',
                 r_success = True,
                 r_message = Some ''AI agent session started. Content generated, waiting for feedback.''\<rparr>,
            w\<lparr>checkpointer :=
                 AList.update sid
                   \<lparr>cp_values = \<lparr>topic = tp, content_length = cl, writing_style = ws,
                                 generated_post = [(1, post)], human_feedback = [],
                                 should_continue = True\<rparr>,
                    cp_next = FeedbackCollector\<rparr> (checkpointer w),
               llm_calls := Suc (llm_calls w),
               active_sessions :=
                 AList.update sid
                   \<lparr>thread_config = sid,
                    state = \<lparr>topic = tp, content_length = cl, writing_style = ws,
                             generated_post = [], human_feedback = [], should_continue = True\<rparr>,
                    current_post = post, status = ''waiting_feedback'',
                    created_at = Some t1, last_activity = Some t2\<rparr> (active_sessions w)\<rparr>)"
  using assms
  by (simp add: start_ai_agent_session_def start_body_def stream_start_def
      generate_then_suspend_def generator_update Let_def apply_update_def add_messages_def
      fresh_id_def as_items_def)

lemma start_raises:
  assumes "model (llm_calls w) (Text writer_persona # content_prompt
             \<lparr>topic = tp, content_length = cl, writing_style = ws, generated_post = [],
              human_feedback = [], should_continue = True\<rparr>) = Inl e"
  shows "start_ai_agent_session model sid t1 t2 tp cl ws w =
           (Inl (HTTPException 500 (''Error starting AI agent session: '' @ str_exn e)),
            w\<lparr>checkpointer :=
                 AList.update sid
                   \<lparr>cp_values = \<lparr>topic = tp, content_length = cl, writing_style = ws,
                                 generated_post = [], human_feedback = [],
                                 should_continue = True\<rparr>,
                    cp_next = ContentGenerator\<rparr> (checkpointer w),
               llm_calls := Suc (llm_calls w)\<rparr>)"
  using assms
  by (simp add: start_ai_agent_session_def start_body_def stream_start_def suspend_raises)

subsection \<open>The termination test and the example runs\<close>

lemma py_lower_examples:
  "py_lower ''done'' = ''done''" "py_lower ''DONE'' = ''done''" "py_lower ''Done'' = ''done''"
  "py_lower ''done '' \<noteq> ''done''" "py_lower ''make it punchier'' \<noteq> ''done''"
  by (simp_all add: py_lower_def py_lower_char_def char_class_defs)

lemma show_nat_404: "show_nat 404 = ''404''"
  by code_simp

lemma feedback_error_keeps_sessions:
  assumes "provide_ai_agent_feedback model now sid f w = (Inl e, w')"
  shows "active_sessions w' = active_sessions w"
  using assms
  by (auto simp: provide_ai_agent_feedback_def feedback_body_def Let_def
      split: option.splits if_splits sum.splits prod.splits)

lemma feedback_not_done_keeps_status:
  assumes "py_lower f \<noteq> ''done''"
  shows "session_status (snd (provide_ai_agent_feedback model now sid f w)) sid = session_status w sid"
  using assms
  by (auto simp: provide_ai_agent_feedback_def feedback_body_def Let_def session_status_def
      update_conv' split: option.splits if_splits sum.splits prod.splits)

lemma example_created_facts:
  "map_of (active_sessions example_created) ''s1'' = Some example_session"
  "status example_session = ''waiting_feedback''"
  "thread_config example_session = ''s1''"
  "current_post example_session = ''x''"
  "map_of (checkpointer example_created) ''s1'' = Some \<lparr>cp_values = example_state, cp_next = FeedbackCollector\<rparr>"
  "llm_calls example_created = 1"
  by (simp_all add: example_created_def example_session_def)

lemma example_created_started:
  "start_ai_agent_session echo_llm ''s1'' 0 0 ''AI in healthcare'' ''short'' [] init_world
     = (Inr \<lparr>r_session_id = ''s1'', r_generated_post = ''x'', r_status = ''waiting_feedback'',
             r_success = True,
             r_message = Some ''AI agent session started. Content generated, waiting for feedback.''\<rparr>,
        example_created)"
  by (simp add: start_created echo_llm_def init_world_def example_created_def
      example_session_def example_state_def)

lemma example_completed_done:
  "provide_ai_agent_feedback model now ''s1'' ''done'' example_created =
     (Inr \<lparr>fr_session_id = ''s1'', fr_generated_post = Some ''x'',
           fr_status = ''completed'', fr_success = True,
           fr_message = Some ''Content finalized successfully!''\<rparr>, example_completed)"
  by (simp add: feedback_done [OF example_created_facts(1) py_lower_examples(1)]
      example_created_facts example_completed_def) (simp add: example_created_def)

lemma example_created_reachable: "reachable echo_llm example_created"
  using reach_start [OF reach_init, of "''s1''" echo_llm 0 0 "''AI in healthcare''" "''short''" "[]"]
  by (simp add: example_created_started) (simp add: init_world_def)

lemma example_completed_reachable: "reachable echo_llm example_completed"
  using reach_feedback [OF example_created_reachable, of 1 "''s1''" "''done''"]
  by (simp add: example_completed_done)

lemma example_completed_facts:
  "map_of (active_sessions example_completed) ''s1'' = Some (example_session\<lparr>status := ''completed''\<rparr>)"
  "map_of (checkpointer example_completed) ''s1'' = Some \<lparr>cp_values = example_state, cp_next = FeedbackCollector\<rparr>"
  "llm_calls example_completed = 1"
  by (simp_all add: example_completed_def example_created_def)

lemma example_state_wf: "wf_state example_state"
  by (simp add: wf_state_def example_state_def)

subsection \<open>Sequences of submissions\<close>

text \<open>
  From a session that is in the store under its thread's name and whose thread is
  suspended in \<^verbatim>\<open>feedback_collector\<close>, submissions that all succeed append to the
  thread's history the feedbacks that do not terminate, and leave the thread suspended
  there.
\<close>

lemma submit_all_history:
  assumes "map_of (active_sessions w) sid = Some sd"
    and "thread_config sd = sid"
    and "map_of (checkpointer w) sid = Some cp"
    and "cp_next cp = FeedbackCollector"
    and "wf_state (cp_values cp)"
    and "submit_all model now sid fs w = Some w2"
  shows "session_history w2 sid =
           Some (history (cp_values cp) @ filter (\<lambda>f. py_lower f \<noteq> ''done'') fs)
         \<and> suspended_at_gate w2 sid"
  using assms
proof (induction fs arbitrary: w sd cp now)
  case Nil
  then show ?case
    by (simp add: session_history_def thread_checkpoint_def suspended_at_gate_def)
next
  case (Cons f fs)
  show ?case
  proof (cases "py_lower f = ''done''")
    case True
    let ?w' = "w\<lparr>active_sessions :=
                 AList.update sid (sd\<lparr>status := ''completed''\<rparr>) (active_sessions w)\<rparr>"
    have step: "submit_all model (now + 1) sid fs ?w' = Some w2"
      using Cons.prems(6) by (simp add: feedback_done [OF Cons.prems(1) True])
    have "session_history w2 sid =
           Some (history (cp_values cp) @ filter (\<lambda>f. py_lower f \<noteq> ''done'') fs)
         \<and> suspended_at_gate w2 sid"
    proof (rule Cons.IH [OF _ _ _ Cons.prems(4) Cons.prems(5) step])
      show "map_of (active_sessions ?w') sid = Some (sd\<lparr>status := ''completed''\<rparr>)"
        by (simp add: update_conv')
      show "thread_config (sd\<lparr>status := ''completed''\<rparr>) = sid"
        using Cons.prems(2) by simp
      show "map_of (checkpointer ?w') sid = Some cp"
        using Cons.prems(3) by simp
    qed
    then show ?thesis using True by simp
  next
    case False
    have cp: "map_of (checkpointer w) (thread_config sd) = Some cp"
      using Cons.prems(2,3) by simp
    show ?thesis
    proof (cases "model (llm_calls w) (Text writer_persona # content_prompt (collected (cp_values cp) f))")
      case (Inl e)
      have "submit_all model now sid (f # fs) w = None"
        by (simp add: feedback_generation_raises [where model = model,
              OF Cons.prems(1) cp Cons.prems(4) False Inl])
      then show ?thesis using Cons.prems(6) by simp
    next
      case (Inr post)
      from feedback_revised [where model = model, OF Cons.prems(1) cp Cons.prems(4) False Inr, of now]
      obtain st' r where
        run: "provide_ai_agent_feedback model now sid f w =
           (Inr r,
            w\<lparr>checkpointer :=
                 AList.update (thread_config sd) \<lparr>cp_values = st', cp_next = FeedbackCollector\<rparr>
                   (checkpointer w),
               llm_calls := Suc (llm_calls w),
               active_sessions :=
                 AList.update sid (sd\<lparr>current_post := post, last_activity := Some now\<rparr>)
                   (active_sessions w)\<rparr>)"
        and wf: "wf_state st'" and hist: "history st' = history (cp_values cp) @ [f]"
        using Cons.prems(5) by blast
      let ?w' = "w\<lparr>checkpointer :=
                 AList.update (thread_config sd) \<lparr>cp_values = st', cp_next = FeedbackCollector\<rparr>
                   (checkpointer w),
               llm_calls := Suc (llm_calls w),
               active_sessions :=
                 AList.update sid (sd\<lparr>current_post := post, last_activity := Some now\<rparr>)
                   (active_sessions w)\<rparr>"
      have step: "submit_all model (now + 1) sid fs ?w' = Some w2"
        using Cons.prems(6) by (simp add: run)
      have "session_history w2 sid =
           Some (history (cp_values \<lparr>cp_values = st', cp_next = FeedbackCollector\<rparr>)
                 @ filter (\<lambda>f. py_lower f \<noteq> ''done'') fs)
         \<and> suspended_at_gate w2 sid"
      proof (rule Cons.IH [OF _ _ _ _ _ step])
        show "map_of (active_sessions ?w') sid
                = Some (sd\<lparr>current_post := post, last_activity := Some now\<rparr>)"
          by (simp add: update_conv')
        show "thread_config (sd\<lparr>current_post := post, last_activity := Some now\<rparr>) = sid"
          using Cons.prems(2) by simp
        show "map_of (checkpointer ?w') sid = Some \<lparr>cp_values = st', cp_next = FeedbackCollector\<rparr>"
          using Cons.prems(2) by (simp add: update_conv')
        show "cp_next \<lparr>cp_values = st', cp_next = FeedbackCollector\<rparr> = FeedbackCollector"
          by simp
        show "wf_state (cp_values \<lparr>cp_values = st', cp_next = FeedbackCollector\<rparr>)"
          using wf by simp
      qed
      then show ?thesis using False hist by simp
    qed
  qed
qed


subsection \<open>The invariant of the store\<close>

lemma store_ok_init: "store_ok init_world"
  by (simp add: store_ok_def init_world_def)

lemma resume_next:
  assumes "cp_next cp = FeedbackCollector \<or> cp_next cp = ContentGenerator"
    and nd: "py_lower f \<noteq> ''done''"
  shows "cp_next (fst (snd (stream_resume model n cp f))) = FeedbackCollector
         \<or> cp_next (fst (snd (stream_resume model n cp f))) = ContentGenerator"
  using assms(1)
proof
  assume gate: "cp_next cp = FeedbackCollector"
  show ?thesis
    using suspend_next [of model n "collected (cp_values cp) f"
        "[(''feedback_collector'', NodeUpdate (feedback_collector (cp_values cp) f))]"]
    by (auto simp: resume_at_gate [OF gate nd])
next
  assume "cp_next cp = ContentGenerator"
  then show ?thesis
    using suspend_next [of model n "cp_values cp" "[]"]
    by (auto simp: stream_resume_def)
qed

lemma suspend_wf:
  assumes "wf_state st"
  shows "wf_state (cp_values (fst (snd (generate_then_suspend model n st before))))"
proof (cases "model n (Text writer_persona # content_prompt st)")
  case (Inl e)
  then show ?thesis using assms by (simp add: suspend_raises)
next
  case (Inr post)
  from suspend_ok [where model = model and n = n and st = st and before = before and g = "[]",
      OF Inr]
  show ?thesis using assms by auto
qed

lemma resume_wf:
  assumes "cp_next cp = FeedbackCollector \<or> cp_next cp = ContentGenerator"
    and wf: "wf_state (cp_values cp)"
    and nd: "py_lower f \<noteq> ''done''"
  shows "wf_state (cp_values (fst (snd (stream_resume model n cp f))))"
  using assms(1)
proof
  assume gate: "cp_next cp = FeedbackCollector"
  show ?thesis
    using suspend_wf [OF wf_state_collected [OF wf, of f], where model = model and n = n
        and before = "[(''feedback_collector'', NodeUpdate (feedback_collector (cp_values cp) f))]"]
    by (simp add: resume_at_gate [OF gate nd])
next
  assume "cp_next cp = ContentGenerator"
  then show ?thesis
    using suspend_wf [OF wf, where model = model and n = n and before = "[]"]
    by (simp add: stream_resume_def)
qed

lemma store_ok_start:
  assumes ok: "store_ok w" and fresh: "map_of (active_sessions w) sid = None"
  shows "store_ok (snd (start_ai_agent_session model sid t1 t2 tp cl ws w))"
proof (cases "model (llm_calls w) (Text writer_persona # content_prompt
             \<lparr>topic = tp, content_length = cl, writing_style = ws, generated_post = [],
              human_feedback = [], should_continue = True\<rparr>)")
  case (Inl e)
  show ?thesis
    unfolding store_ok_def
  proof (intro allI impI)
    fix k sd
    assume "map_of (active_sessions (snd (start_ai_agent_session model sid t1 t2 tp cl ws w))) k = Some sd"
    then have s: "map_of (active_sessions w) k = Some sd"
      by (simp add: start_raises [where model = model, OF Inl])
    then have "k \<noteq> sid" using fresh by auto
    moreover have "session_ok w k sd" using ok s by (simp add: store_ok_def)
    ultimately show "session_ok (snd (start_ai_agent_session model sid t1 t2 tp cl ws w)) k sd"
      by (auto simp: start_raises [where model = model, OF Inl] session_ok_def update_conv')
  qed
next
  case (Inr post)
  show ?thesis
    unfolding store_ok_def
  proof (intro allI impI)
    fix k sd
    assume a: "map_of (active_sessions (snd (start_ai_agent_session model sid t1 t2 tp cl ws w))) k = Some sd"
    show "session_ok (snd (start_ai_agent_session model sid t1 t2 tp cl ws w)) k sd"
    proof (cases "k = sid")
      case True
      then show ?thesis
        using a
        by (auto simp: start_created [where model = model, OF Inr] session_ok_def update_conv'
            wf_state_def)
    next
      case False
      then have s: "map_of (active_sessions w) k = Some sd"
        using a by (simp add: start_created [where model = model, OF Inr] update_conv')
      then have "session_ok w k sd" using ok by (simp add: store_ok_def)
      then show ?thesis
        using False by (simp add: start_created [where model = model, OF Inr] session_ok_def update_conv')
    qed
  qed
qed

lemma store_ok_feedback:
  assumes ok: "store_ok w"
  shows "store_ok (snd (provide_ai_agent_feedback model now sid f w))"
proof (cases "map_of (active_sessions w) sid")
  case None
  then show ?thesis using ok by (simp add: provide_ai_agent_feedback_def feedback_body_def)
next
  case (Some sd)
  then have sd: "session_ok w sid sd" using ok by (simp add: store_ok_def)
  show ?thesis
  proof (cases "py_lower f = ''done''")
    case True
    show ?thesis
      unfolding store_ok_def
    proof (intro allI impI)
      fix k sd'
      assume a: "map_of (active_sessions (snd (provide_ai_agent_feedback model now sid f w))) k = Some sd'"
      show "session_ok (snd (provide_ai_agent_feedback model now sid f w)) k sd'"
      proof (cases "k = sid")
        case True
        then show ?thesis
          using a sd \<open>py_lower f = ''done''\<close>
          by (auto simp: feedback_done [OF Some] session_ok_def update_conv')
      next
        case False
        then have "map_of (active_sessions w) k = Some sd'"
          using a \<open>py_lower f = ''done''\<close> by (simp add: feedback_done [OF Some] update_conv')
        then have "session_ok w k sd'" using ok by (simp add: store_ok_def)
        then show ?thesis
          using \<open>py_lower f = ''done''\<close> by (simp add: feedback_done [OF Some] session_ok_def)
      qed
    qed
  next
    case False
    from sd obtain cp where cp: "map_of (checkpointer w) sid = Some cp"
      and nx: "cp_next cp = FeedbackCollector \<or> cp_next cp = ContentGenerator"
      and wf: "wf_state (cp_values cp)"
      and tc: "thread_config sd = sid"
      by (auto simp: session_ok_def)
    obtain res cp' n where run: "stream_resume model (llm_calls w) cp f = (res, cp', n)"
      by (cases "stream_resume model (llm_calls w) cp f") auto
    have nx': "cp_next cp' = FeedbackCollector \<or> cp_next cp' = ContentGenerator"
      using resume_next [OF nx False, of model "llm_calls w"] run by simp
    have wf': "wf_state (cp_values cp')"
      using resume_wf [OF nx wf False, of model "llm_calls w"] run by simp
    show ?thesis
      unfolding store_ok_def
    proof (intro allI impI)
      fix k sd'
      assume a: "map_of (active_sessions (snd (provide_ai_agent_feedback model now sid f w))) k = Some sd'"
      show "session_ok (snd (provide_ai_agent_feedback model now sid f w)) k sd'"
      proof (cases "k = sid")
        case True
        then show ?thesis
          using a sd False Some cp tc run nx' wf'
          by (cases res)
            (auto simp: provide_ai_agent_feedback_def feedback_body_def session_ok_def
              update_conv' Let_def)
      next
        case False
        then have "map_of (active_sessions w) k = Some sd'"
          using a Some cp tc run \<open>py_lower f \<noteq> ''done''\<close>
          by (cases res)
            (auto simp: provide_ai_agent_feedback_def feedback_body_def update_conv' Let_def)
        then have "session_ok w k sd'" using ok by (simp add: store_ok_def)
        then show ?thesis
          using False Some cp tc run \<open>py_lower f \<noteq> ''done''\<close>
          by (cases res)
            (auto simp: provide_ai_agent_feedback_def feedback_body_def session_ok_def
              update_conv' Let_def)
      qed
    qed
  qed
qed

lemma map_of_fold_delete:
  "map_of (fold AList.delete ks al) k = Some v \<Longrightarrow> map_of al k = Some v"
proof (induction ks arbitrary: al)
  case Nil
  then show ?case by simp
next
  case (Cons x ks)
  then have "map_of (AList.delete x al) k = Some v" by simp
  then show ?case by (simp add: delete_conv' split: if_splits)
qed

lemma store_ok_delete:
  assumes ok: "store_ok w"
  shows "store_ok (snd (delete_ai_agent_session sid w))"
  using ok
  by (auto simp: delete_ai_agent_session_def store_ok_def session_ok_def delete_conv'
      split: option.splits if_splits)

lemma store_ok_cleanup:
  assumes ok: "store_ok w"
  shows "store_ok (snd (cleanup_expired_sessions now w))"
  using ok
  by (auto simp: cleanup_expired_sessions_def store_ok_def session_ok_def
      split: sum.splits dest!: map_of_fold_delete)

lemma reachable_store_ok: "reachable model w \<Longrightarrow> store_ok w"
proof (induction rule: reachable.induct)
  case reach_init
  show ?case by (rule store_ok_init)
next
  case (reach_start w sid t1 t2 tp cl ws)
  then show ?case by (simp add: store_ok_start)
next
  case (reach_feedback w now sid f)
  then show ?case by (simp add: store_ok_feedback)
next
  case (reach_delete w sid)
  then show ?case by (simp add: store_ok_delete)
next
  case (reach_cleanup w now)
  then show ?case by (simp add: store_ok_cleanup)
qed

subsection \<open>Runs with other requests in between\<close>










subsection \<open>The sweep\<close>

lemma collect_expired_filter:
  assumes "\<forall>p \<in> set items. has_time_stamp (snd p)"
  shows "collect_expired now acc items =
           Inr (acc @ map fst (filter (\<lambda>p. session_expired now (snd p)) items))"
  using assms
proof (induction items arbitrary: acc)
  case Nil
  then show ?case by simp
next
  case (Cons p items)
  obtain k sd where [simp]: "p = (k, sd)" by (cases p)
  from Cons.prems have "has_time_stamp sd" by simp
  then have "\<exists>la. session_last_activity sd = Some la \<and> session_age now sd = Some (now - la)"
    by (cases "last_activity sd"; cases "created_at sd")
       (simp_all add: has_time_stamp_def session_last_activity_def session_age_def)
  then obtain la where la: "session_last_activity sd = Some la"
    and age: "session_age now sd = Some (now - la)"
    by blast
  have "\<forall>p \<in> set items. has_time_stamp (snd p)" using Cons.prems by simp
  then show ?case
    using la age
    by (simp add: Cons.IH session_expired_def timedelta_minutes_def SESSION_TIMEOUT_MINUTES_def)
qed

lemma fold_delete_filter:
  "fold AList.delete ks al = filter (\<lambda>p. fst p \<notin> set ks) al"
proof (induction ks arbitrary: al)
  case Nil
  then show ?case by simp
next
  case (Cons k ks)
  have "filter (\<lambda>p. fst p \<notin> set ks) (AList.delete k al) = filter (\<lambda>p. fst p \<notin> set (k # ks)) al"
    by (induction al) (auto simp: AList.delete_eq)
  then show ?case by (simp add: Cons.IH)
qed

lemma expired_keys_filter:
  assumes "distinct (map fst al)"
  shows "filter (\<lambda>p. fst p \<notin> set (map fst (filter E al))) al = filter (\<lambda>p. \<not> E p) al"
proof (rule filter_cong [OF refl])
  fix p assume p: "p \<in> set al"
  show "(fst p \<notin> set (map fst (filter E al))) = (\<not> E p)"
  proof
    assume "fst p \<notin> set (map fst (filter E al))"
    then show "\<not> E p" using p by force
  next
    assume n: "\<not> E p"
    show "fst p \<notin> set (map fst (filter E al))"
    proof
      assume "fst p \<in> set (map fst (filter E al))"
      then obtain q where q: "q \<in> set al" "E q" "fst q = fst p" by auto
      have "q = p"
        using assms p q(1,3) by (metis eq_key_imp_eq_value prod.collapse)
      then show False using n q(2) by simp
    qed
  qed
qed

lemma cleanup_result:
  assumes "distinct (map fst (active_sessions w))"
    and "\<forall>p \<in> set (active_sessions w). has_time_stamp (snd p)"
  shows "cleanup_expired_sessions now w =
           (Inr (length (filter (\<lambda>p. session_expired now (snd p)) (active_sessions w))),
            w\<lparr>active_sessions := filter (\<lambda>p. \<not> session_expired now (snd p)) (active_sessions w)\<rparr>)"
proof -
  let ?E = "\<lambda>p. session_expired now (snd p)"
  have c: "collect_expired now [] (active_sessions w) = Inr (map fst (filter ?E (active_sessions w)))"
    using collect_expired_filter [OF assms(2), of now "[]"] by simp
  have "fold AList.delete (map fst (filter ?E (active_sessions w))) (active_sessions w)
          = filter (\<lambda>p. \<not> ?E p) (active_sessions w)"
    unfolding fold_delete_filter by (rule expired_keys_filter [OF assms(1)])
  then show ?thesis
    by (simp add: cleanup_expired_sessions_def c)
qed

lemma map_of_filter_distinct:
  assumes "distinct (map fst al)"
  shows "map_of (filter (\<lambda>p. \<not> E (snd p)) al) k =
           (case map_of al k of None \<Rightarrow> None | Some v \<Rightarrow> if E v then None else Some v)"
  using assms
proof (induction al)
  case Nil
  then show ?case by simp
next
  case (Cons p al)
  obtain j v where p: "p = (j, v)" by (cases p)
  show ?case
  proof (cases "j = k")
    case True
    then have "k \<notin> fst ` set al" using Cons.prems p by auto
    then have "map_of (filter (\<lambda>p. \<not> E (snd p)) al) k = None"
      by (auto simp: map_of_eq_None_iff)
    then show ?thesis using True p by simp
  next
    case False
    then show ?thesis using Cons p by simp
  qed
qed

subsection \<open>The fallback report and the hashtags\<close>



lemma py_split_from_nonempty: "py_split_from sep cur s \<noteq> []"
  by (induction sep cur s rule: py_split_from.induct) auto



lemma py_split_nonempty: "py_split s sep \<noteq> []"
  by (simp add: py_split_def py_split_from_nonempty)

lemma findall_hashtags_are_hashtags: "list_all is_hashtag (findall_hashtags s)"
proof (induction s rule: findall_hashtags.induct)
  case 1
  show ?case by simp
next
  case (2 c cs)
  have "list_all is_word_char (takeWhile is_word_char cs)"
    by (simp add: list_all_iff) (meson set_takeWhileD)
  then show ?case
    using 2 by (auto simp: is_hashtag_def)
qed

lemma default_hashtags:
  "list_all is_hashtag [''#Content'', ''#Professional'', ''#Growth'']"
  "list_all is_hashtag [''#Content'', ''#Professional'', ''#Growth'', ''#Success'', ''#Business'']"
  by (simp_all add: is_hashtag_def char_class_defs)

lemma list_all_take: "list_all P xs \<Longrightarrow> list_all P (take n xs)"
  by (auto simp: list_all_iff dest: in_set_takeD)

lemma hashtags_cases:
  "suggest_hashtags_only gen content tp count =
     (case gen [''You are a content hashtag expert.'', content, tp, show_int count] of
        Inl e \<Rightarrow> [''#Content'', ''#Professional'', ''#Growth'', ''#Success'', ''#Business'']
      | Inr txt \<Rightarrow>
          if findall_hashtags txt \<noteq> [] then py_slice_to (findall_hashtags txt) count
          else [''#Content'', ''#Professional'', ''#Growth''])"
  by (simp add: suggest_hashtags_only_def hashtags_body_def Let_def split: sum.splits)

section \<open>The claims\<close>

text \<open>
  C4.  For a session in the store, a feedback whose lower-case form is \<^verbatim>\<open>done\<close> generates
  no draft: the call succeeds, the draft it returns and the draft stored afterwards are
  the draft stored before, the returned and the stored status are \<^verbatim>\<open>completed\<close>, the text
  generator is not called and no checkpoint changes.
\<close>

theorem done_keeps_draft:
  assumes "map_of (active_sessions w) sid = Some sd"
    and "py_lower f = ''done''"
  shows "\<exists>r w'. provide_ai_agent_feedback model now sid f w = (Inr r, w')
           \<and> fr_generated_post r = Some (current_post sd)
           \<and> fr_status r = ''completed''
           \<and> session_draft w' sid = Some (current_post sd)
           \<and> session_status w' sid = Some ''completed''
           \<and> llm_calls w' = llm_calls w
           \<and> checkpointer w' = checkpointer w"
  using assms
  by (simp add: feedback_done session_draft_def session_status_def update_conv')

theorem done_keeps_draft_witness:
  "session_draft example_created ''s1'' = Some ''x''
   \<and> session_status example_created ''s1'' = Some ''waiting_feedback''
   \<and> (\<exists>r w'. provide_ai_agent_feedback echo_llm 7 ''s1'' ''Done'' example_created = (Inr r, w')
           \<and> fr_generated_post r = Some ''x''
           \<and> fr_status r = ''completed''
           \<and> session_draft w' ''s1'' = Some ''x''
           \<and> session_status w' ''s1'' = Some ''completed''
           \<and> llm_calls w' = 1
           \<and> checkpointer w' = checkpointer example_created)"
proof -
  have s: "map_of (active_sessions example_created) ''s1'' = Some example_session"
    by (simp add: example_created_def)
  have "current_post example_session = ''x''" "llm_calls example_created = 1"
    by (simp_all add: example_session_def example_created_def)
  then show ?thesis
    using done_keeps_draft [OF s py_lower_examples(3), of echo_llm 7]
    by (simp add: session_draft_def session_status_def s) (simp add: example_session_def)
qed

text \<open>
  C3.  A feedback for an identifier that names no session leaves the store as it was,
  and the failure the client gets carries the status code 500 and wraps the 404: the
  \<^verbatim>\<open>except Exception\<close> of the handler catches the \<open>HTTPException\<close> raised inside its \<^verbatim>\<open>try\<close>.
  Reading the same identifier answers 404.
\<close>

theorem unknown_session_reported_as_500:
  "provide_ai_agent_feedback echo_llm 0 ''nonexistent-id'' ''done'' init_world =
     (Inl (HTTPException 500 ''Error processing feedback: 404: Session not found''), init_world)
   \<and> get_ai_agent_session ''nonexistent-id'' init_world = Inl (HTTPException 404 ''Session not found'')"
  by (simp add: provide_ai_agent_feedback_def feedback_body_def init_world_def show_nat_404
      get_ai_agent_session_def)

text \<open>
  C5.  The test for termination is \<^verbatim>\<open>feedback.lower() == "done"\<close>, with no trimming.  For a
  session awaiting feedback and every feedback \<open>f\<close>: the call answers \<^verbatim>\<open>completed\<close> exactly when
  the lower-case form of \<open>f\<close> is \<^verbatim>\<open>done\<close>, and the stored status is \<^verbatim>\<open>completed\<close> afterwards
  exactly then; \<^verbatim>\<open>feedback_collector\<close> applies the same test.  \<^verbatim>\<open>DONE\<close> and \<^verbatim>\<open>Done\<close> terminate;
  \<^verbatim>\<open>done\<close> followed by a space does not.  A feedback that does not terminate, given to a
  thread suspended in \<^verbatim>\<open>feedback_collector\<close>, calls the generator once, and the draft it
  answers is the new draft, returned and stored.
\<close>

theorem termination_test:
  assumes sess: "map_of (active_sessions w) sid = Some sd"
    and waiting: "status sd = ''waiting_feedback''"
  shows "((\<exists>r w'. provide_ai_agent_feedback model now sid f w = (Inr r, w')
             \<and> fr_status r = ''completed'') \<longleftrightarrow> py_lower f = ''done'')
       \<and> (session_status (snd (provide_ai_agent_feedback model now sid f w)) sid = Some ''completed''
             \<longleftrightarrow> py_lower f = ''done'')
       \<and> (should_continue (collected st f) \<longleftrightarrow> py_lower f \<noteq> ''done'')
       \<and> py_lower ''DONE'' = ''done'' \<and> py_lower ''Done'' = ''done''
       \<and> py_lower ''done '' \<noteq> ''done''
       \<and> (py_lower f \<noteq> ''done'' \<longrightarrow>
            map_of (checkpointer w) (thread_config sd) = Some cp \<longrightarrow>
            cp_next cp = FeedbackCollector \<longrightarrow>
            model (llm_calls w) (Text writer_persona # content_prompt (collected (cp_values cp) f)) = Inr post \<longrightarrow>
            (\<exists>r w'. provide_ai_agent_feedback model now sid f w = (Inr r, w')
               \<and> fr_status r = ''waiting_feedback''
               \<and> fr_generated_post r = Some post
               \<and> session_draft w' sid = Some post
               \<and> llm_calls w' = Suc (llm_calls w)))"
proof -
  have a: "(\<exists>r w'. provide_ai_agent_feedback model now sid f w = (Inr r, w')
             \<and> fr_status r = ''completed'') \<longleftrightarrow> py_lower f = ''done''"
  proof
    assume "\<exists>r w'. provide_ai_agent_feedback model now sid f w = (Inr r, w') \<and> fr_status r = ''completed''"
    then obtain r w' where "provide_ai_agent_feedback model now sid f w = (Inr r, w')"
      and "fr_status r = ''completed''" by blast
    then show "py_lower f = ''done''"
      using feedback_status [of model now sid f w r w'] by (simp split: if_splits)
  next
    assume "py_lower f = ''done''"
    then show "\<exists>r w'. provide_ai_agent_feedback model now sid f w = (Inr r, w') \<and> fr_status r = ''completed''"
      using sess by (simp add: feedback_done)
  qed
  have b: "session_status (snd (provide_ai_agent_feedback model now sid f w)) sid = Some ''completed''
             \<longleftrightarrow> py_lower f = ''done''"
  proof (cases "py_lower f = ''done''")
    case True
    then show ?thesis using sess by (simp add: feedback_done session_status_def update_conv')
  next
    case False
    then show ?thesis
      using sess waiting by (simp add: feedback_not_done_keeps_status) (simp add: session_status_def)
  qed
  have c: "py_lower f \<noteq> ''done'' \<longrightarrow>
            map_of (checkpointer w) (thread_config sd) = Some cp \<longrightarrow>
            cp_next cp = FeedbackCollector \<longrightarrow>
            model (llm_calls w) (Text writer_persona # content_prompt (collected (cp_values cp) f)) = Inr post \<longrightarrow>
            (\<exists>r w'. provide_ai_agent_feedback model now sid f w = (Inr r, w')
               \<and> fr_status r = ''waiting_feedback''
               \<and> fr_generated_post r = Some post
               \<and> session_draft w' sid = Some post
               \<and> llm_calls w' = Suc (llm_calls w))"
  proof (intro impI)
    assume nd: "py_lower f \<noteq> ''done''"
      and cp: "map_of (checkpointer w) (thread_config sd) = Some cp"
      and gate: "cp_next cp = FeedbackCollector"
      and gen: "model (llm_calls w) (Text writer_persona # content_prompt (collected (cp_values cp) f)) = Inr post"
    from feedback_revised [where model = model, OF sess cp gate nd gen, of now]
    show "\<exists>r w'. provide_ai_agent_feedback model now sid f w = (Inr r, w')
               \<and> fr_status r = ''waiting_feedback''
               \<and> fr_generated_post r = Some post
               \<and> session_draft w' sid = Some post
               \<and> llm_calls w' = Suc (llm_calls w)"
      by (auto simp: session_draft_def update_conv')
  qed
  show ?thesis
    using a b c by (simp add: should_continue_collected py_lower_examples)
qed

theorem termination_test_witness:
  "session_status example_created ''s1'' = Some ''waiting_feedback''
   \<and> (\<exists>r w'. provide_ai_agent_feedback echo_llm 5 ''s1'' ''done '' example_created = (Inr r, w')
               \<and> fr_status r = ''waiting_feedback''
               \<and> fr_generated_post r = Some ''xx''
               \<and> session_draft w' ''s1'' = Some ''xx''
               \<and> llm_calls w' = 2)
   \<and> session_status (snd (provide_ai_agent_feedback echo_llm 5 ''s1'' ''done '' example_created)) ''s1''
       \<noteq> Some ''completed''"
proof -
  have g: "echo_llm 1 (Text writer_persona # content_prompt (collected example_state ''done '')) = Inr ''xx''"
    by (simp add: echo_llm_def numeral_2_eq_2)
  show ?thesis
    using termination_test [OF example_created_facts(1,2), of echo_llm 5 "''done ''" example_state
        "\<lparr>cp_values = example_state, cp_next = FeedbackCollector\<rparr>" "''xx''"]
      g
    by (simp add: example_created_facts session_status_def py_lower_examples numeral_2_eq_2)
qed

text \<open>
  C2.  As stated the claim fails: the handler never reads the stored status.  After a
  session was completed, a feedback that is not \<^verbatim>\<open>done\<close> resumes the workflow, calls the
  generator, stores and returns a new draft and answers \<^verbatim>\<open>waiting_feedback\<close>, while the
  stored status stays \<^verbatim>\<open>completed\<close>.
\<close>

theorem completed_session_revised_again:
  "reachable echo_llm example_completed
   \<and> session_status example_completed ''s1'' = Some ''completed''
   \<and> session_draft example_completed ''s1'' = Some ''x''
   \<and> fst (provide_ai_agent_feedback echo_llm 9 ''s1'' ''make it punchier'' example_completed) =
       Inr \<lparr>fr_session_id = ''s1'', fr_generated_post = Some ''xx'',
            fr_status = ''waiting_feedback'', fr_success = True,
            fr_message = Some ''Feedback processed. New content generated, waiting for more feedback.''\<rparr>
   \<and> llm_calls (snd (provide_ai_agent_feedback echo_llm 9 ''s1'' ''make it punchier'' example_completed)) = 2
   \<and> session_draft (snd (provide_ai_agent_feedback echo_llm 9 ''s1'' ''make it punchier'' example_completed)) ''s1''
       = Some ''xx''
   \<and> session_status (snd (provide_ai_agent_feedback echo_llm 9 ''s1'' ''make it punchier'' example_completed)) ''s1''
       = Some ''completed''"
proof -
  have g: "echo_llm (llm_calls example_completed)
            (Text writer_persona # content_prompt
               (collected (cp_values \<lparr>cp_values = example_state, cp_next = FeedbackCollector\<rparr>)
                  ''make it punchier'')) = Inr ''xx''"
    by (simp add: echo_llm_def example_completed_facts)
  have t: "thread_config (example_session\<lparr>status := ''completed''\<rparr>) = ''s1''"
    by (simp add: example_session_def)
  have "map_of (checkpointer example_completed) (thread_config (example_session\<lparr>status := ''completed''\<rparr>))
          = Some \<lparr>cp_values = example_state, cp_next = FeedbackCollector\<rparr>"
    by (simp add: t example_completed_facts)
  from feedback_revised [where model = echo_llm, OF example_completed_facts(1) this _
      py_lower_examples(5) g, of 9]
  show ?thesis
    by (auto simp: example_completed_reachable session_status_def session_draft_def
        example_completed_facts update_conv' example_session_def)
qed

text \<open>
  C2, amended.  For a session whose status is \<^verbatim>\<open>completed\<close>, a feedback whose lower-case form
  is \<^verbatim>\<open>done\<close> returns the stored draft and the status \<^verbatim>\<open>completed\<close>, does not fail, and
  changes nothing: not the store, not a checkpoint, not the number of generator calls.
\<close>

theorem completed_session_done_again:
  assumes "map_of (active_sessions w) sid = Some sd"
    and "status sd = ''completed''"
    and "py_lower f = ''done''"
  shows "provide_ai_agent_feedback model now sid f w =
           (Inr \<lparr>fr_session_id = sid, fr_generated_post = Some (current_post sd),
                 fr_status = ''completed'', fr_success = True,
                 fr_message = Some ''Content finalized successfully!''\<rparr>, w)"
proof -
  have "sd\<lparr>status := ''completed''\<rparr> = sd" using assms(2) by simp
  then have "AList.update sid (sd\<lparr>status := ''completed''\<rparr>) (active_sessions w) = active_sessions w"
    using assms(1) by (simp add: update_triv)
  then show ?thesis
    using assms by (simp add: feedback_done)
qed

theorem completed_session_done_again_witness:
  "session_status example_completed ''s1'' = Some ''completed''
   \<and> py_lower ''DONE'' = ''done''
   \<and> provide_ai_agent_feedback echo_llm 3 ''s1'' ''DONE'' example_completed =
           (Inr \<lparr>fr_session_id = ''s1'', fr_generated_post = Some ''x'',
                 fr_status = ''completed'', fr_success = True,
                 fr_message = Some ''Content finalized successfully!''\<rparr>, example_completed)"
  using completed_session_done_again [OF example_completed_facts(1) _ py_lower_examples(2), of echo_llm 3]
  by (simp add: session_status_def example_completed_facts py_lower_examples)
     (simp add: example_session_def)

text \<open>
  C9.  As stated the claim fails for a feedback submission.  The checkpoint of the thread
  is saved when \<^verbatim>\<open>feedback_collector\<close> returns, before \<^verbatim>\<open>content_generator\<close> runs: when the
  generation raises, the call fails, and the feedback history the thread holds has
  already grown by the feedback.
\<close>

theorem failed_generation_keeps_feedback:
  "session_history example_created ''s1'' = Some []
   \<and> fst (provide_ai_agent_feedback failing_llm 9 ''s1'' ''make it punchier'' example_created) =
       Inl (HTTPException 500 ''Error processing feedback: quota exceeded'')
   \<and> session_history (snd (provide_ai_agent_feedback failing_llm 9 ''s1'' ''make it punchier'' example_created)) ''s1''
       = Some [''make it punchier'']
   \<and> suspended_at_gate example_created ''s1''
   \<and> \<not> suspended_at_gate (snd (provide_ai_agent_feedback failing_llm 9 ''s1'' ''make it punchier'' example_created)) ''s1''"
proof -
  have g: "failing_llm (llm_calls example_created)
            (Text writer_persona # content_prompt
               (collected (cp_values \<lparr>cp_values = example_state, cp_next = FeedbackCollector\<rparr>)
                  ''make it punchier'')) = Inl (CollaboratorError ''quota exceeded'')"
    by (simp add: failing_llm_def example_created_facts)
  have c: "map_of (checkpointer example_created) (thread_config example_session)
          = Some \<lparr>cp_values = example_state, cp_next = FeedbackCollector\<rparr>"
    by (simp add: example_created_facts)
  have h: "history example_state = []"
    by (simp add: history_def example_state_def)
  from feedback_generation_raises [where model = failing_llm, OF example_created_facts(1) c _
      py_lower_examples(5) g, of 9]
  show ?thesis
    by (simp add: session_history_def thread_checkpoint_def suspended_at_gate_def
        example_created_facts update_conv' history_collected example_state_wf h)
qed

text \<open>
  C9, amended.  In every reachable state, when the generation raises, the operation
  fails with the status code 500 and the cause in its detail, and the store is exactly
  what it was: a failed start records no session, and a failed feedback, which is one that
  is not \<^verbatim>\<open>done\<close>, leaves the session's draft, status and time stamps.  The thread's
  checkpoint is not restored.  After a failed feedback the generation is the node to run
  next and the posts are what they were; the history has grown by the feedback when the
  thread was suspended in \<^verbatim>\<open>feedback_collector\<close>, and is what it was when an earlier
  generation of the thread had already failed.
\<close>

theorem generation_failure:
  assumes reach: "reachable model w"
    and fails: "\<And>msgs. model (llm_calls w) msgs = Inl e"
  shows "(\<exists>w'. start_ai_agent_session model sid' t1 t2 tp cl ws w =
                 (Inl (HTTPException 500 (''Error starting AI agent session: '' @ str_exn e)), w')
               \<and> active_sessions w' = active_sessions w)
       \<and> (map_of (active_sessions w) sid = Some sd \<longrightarrow> py_lower f \<noteq> ''done'' \<longrightarrow>
           (\<exists>w' cp cp'. provide_ai_agent_feedback model now sid f w =
                 (Inl (HTTPException 500 (''Error processing feedback: '' @ str_exn e)), w')
               \<and> active_sessions w' = active_sessions w
               \<and> thread_checkpoint w sid = Some cp
               \<and> thread_checkpoint w' sid = Some cp'
               \<and> cp_next cp' = ContentGenerator
               \<and> generated_post (cp_values cp') = generated_post (cp_values cp)
               \<and> history (cp_values cp') =
                   (if cp_next cp = FeedbackCollector then history (cp_values cp) @ [f]
                    else history (cp_values cp))))"
proof -
  have a: "\<exists>w'. start_ai_agent_session model sid' t1 t2 tp cl ws w =
                 (Inl (HTTPException 500 (''Error starting AI agent session: '' @ str_exn e)), w')
               \<and> active_sessions w' = active_sessions w"
    by (simp add: start_raises [where model = model, OF fails])
  have b: "\<exists>w' cp cp'. provide_ai_agent_feedback model now sid f w =
                 (Inl (HTTPException 500 (''Error processing feedback: '' @ str_exn e)), w')
               \<and> active_sessions w' = active_sessions w
               \<and> thread_checkpoint w sid = Some cp
               \<and> thread_checkpoint w' sid = Some cp'
               \<and> cp_next cp' = ContentGenerator
               \<and> generated_post (cp_values cp') = generated_post (cp_values cp)
               \<and> history (cp_values cp') =
                   (if cp_next cp = FeedbackCollector then history (cp_values cp) @ [f]
                    else history (cp_values cp))"
    if sess: "map_of (active_sessions w) sid = Some sd" and nd: "py_lower f \<noteq> ''done''"
  proof -
    have "session_ok w sid sd"
      using reachable_store_ok [OF reach] sess by (simp add: store_ok_def)
    then obtain cp where tc: "thread_config sd = sid"
      and cp: "map_of (checkpointer w) sid = Some cp"
      and nx: "cp_next cp = FeedbackCollector \<or> cp_next cp = ContentGenerator"
      and wf: "wf_state (cp_values cp)"
      by (auto simp: session_ok_def)
    have cp': "map_of (checkpointer w) (thread_config sd) = Some cp"
      using cp tc by simp
    from nx show ?thesis
    proof
      assume gate: "cp_next cp = FeedbackCollector"
      show ?thesis
        using wf sess cp tc gate
        by (simp add: feedback_generation_raises [where model = model, OF sess cp' gate nd fails]
            thread_checkpoint_def update_conv' history_collected generated_post_collected)
    next
      assume again: "cp_next cp = ContentGenerator"
      show ?thesis
        using sess cp tc again
        by (simp add: feedback_regeneration_raises [where model = model, OF sess cp' again nd fails]
            thread_checkpoint_def update_conv')
    qed
  qed
  show ?thesis using a b by blast
qed

theorem generation_failure_witness:
  "reachable failing_llm example_created
   \<and> (\<forall>msgs. failing_llm (llm_calls example_created) msgs = Inl (CollaboratorError ''quota exceeded''))
   \<and> map_of (active_sessions example_created) ''s1'' = Some example_session
   \<and> py_lower ''make it punchier'' \<noteq> ''done''
   \<and> (\<exists>w'. start_ai_agent_session failing_llm ''s2'' 3 4 ''tea'' ''short'' [] example_created =
                 (Inl (HTTPException 500 ''Error starting AI agent session: quota exceeded''), w')
               \<and> active_sessions w' = active_sessions example_created)
   \<and> provide_ai_agent_feedback failing_llm 9 ''s1'' ''make it punchier'' example_created =
         (Inl (HTTPException 500 ''Error processing feedback: quota exceeded''), example_failed)
   \<and> active_sessions example_failed = active_sessions example_created
   \<and> session_history example_created ''s1'' = Some []
   \<and> session_history example_failed ''s1'' = Some [''make it punchier'']
   \<and> provide_ai_agent_feedback failing_llm 10 ''s1'' ''shorter'' example_failed =
         (Inl (HTTPException 500 ''Error processing feedback: quota exceeded''),
          example_failed\<lparr>llm_calls := 3\<rparr>)"
proof -
  have f: "\<And>msgs. failing_llm (llm_calls example_created) msgs = Inl (CollaboratorError ''quota exceeded'')"
    by (simp add: failing_llm_def example_created_facts)
  have r: "reachable failing_llm example_created"
    using reach_start [OF reach_init, of "''s1''" failing_llm 0 0 "''AI in healthcare''" "''short''" "[]"]
    by (simp add: start_created failing_llm_def init_world_def example_created_def
        example_session_def example_state_def)
  have c: "map_of (checkpointer example_created) (thread_config example_session)
          = Some \<lparr>cp_values = example_state, cp_next = FeedbackCollector\<rparr>"
    by (simp add: example_created_facts)
  have run: "provide_ai_agent_feedback failing_llm 9 ''s1'' ''make it punchier'' example_created =
         (Inl (HTTPException 500 ''Error processing feedback: quota exceeded''), example_failed)"
    using feedback_generation_raises [where model = failing_llm, OF example_created_facts(1) c _
        py_lower_examples(5) f, of 9]
    by (simp add: example_failed_def example_created_def example_session_def wf_collected
        example_state_wf fresh_id_def py_lower_examples) (simp add: example_state_def)
  have h: "session_history example_created ''s1'' = Some []"
    "session_history example_failed ''s1'' = Some [''make it punchier'']"
    "active_sessions example_failed = active_sessions example_created"
    by (simp_all add: session_history_def thread_checkpoint_def example_failed_def
        example_created_def example_session_def history_def example_state_def)
  have l: "py_lower ''shorter'' \<noteq> ''done''"
    by (simp add: py_lower_def)
  have s2: "map_of (active_sessions example_failed) ''s1'' = Some example_session"
    by (simp add: example_failed_def example_created_def)
  have c2: "map_of (checkpointer example_failed) (thread_config example_session)
          = Some \<lparr>cp_values = example_state\<lparr>human_feedback := [(1, ''make it punchier'')]\<rparr>,
                   cp_next = ContentGenerator\<rparr>"
    by (simp add: example_failed_def example_session_def)
  have f2: "failing_llm (llm_calls example_failed) msgs = Inl (CollaboratorError ''quota exceeded'')"
    for msgs by (simp add: failing_llm_def example_failed_def)
  have again: "provide_ai_agent_feedback failing_llm 10 ''s1'' ''shorter'' example_failed =
         (Inl (HTTPException 500 ''Error processing feedback: quota exceeded''),
          example_failed\<lparr>llm_calls := 3\<rparr>)"
    using feedback_regeneration_raises [where model = failing_llm, OF s2 c2 _ l f2, of 10]
    by (simp add: example_failed_def example_created_def example_session_def)
  show ?thesis
    using generation_failure [where model = failing_llm, OF r f, of "''s2''" 3 4 "''tea''" "''short''" "[]"
        "''s1''" example_session "''make it punchier''" 9]
    by (simp add: f r run h again example_created_facts py_lower_examples)
      (simp add: failing_llm_def)
qed




text \<open>
  C8.  As stated the claim fails: nothing discards a thread's checkpoint.  The session
  completed by \<^verbatim>\<open>done\<close> is reachable, its status is \<^verbatim>\<open>completed\<close>, and its thread is still
  suspended in \<^verbatim>\<open>feedback_collector\<close>, ready to be resumed.
\<close>

theorem completed_session_keeps_token:
  "reachable echo_llm example_completed
   \<and> session_status example_completed ''s1'' = Some ''completed''
   \<and> has_token example_completed ''s1''
   \<and> suspended_at_gate example_completed ''s1''"
  by (simp add: example_completed_reachable session_status_def has_token_def
      suspended_at_gate_def thread_checkpoint_def example_completed_facts example_session_def)

text \<open>
  C8, amended.  Every session of a reachable state has the status \<^verbatim>\<open>waiting_feedback\<close> or
  \<^verbatim>\<open>completed\<close> and, whichever it is, holds a live resumption token: its thread has a
  checkpoint that is not finished.  So no reachable session is \<^verbatim>\<open>waiting_feedback\<close> without
  a token, and completing a session discards nothing.
\<close>

theorem reachable_sessions_hold_token:
  assumes "reachable model w"
    and "map_of (active_sessions w) sid = Some sd"
  shows "(status sd = ''waiting_feedback'' \<or> status sd = ''completed'')
       \<and> has_token w sid
       \<and> \<not> (status sd = ''waiting_feedback'' \<and> \<not> has_token w sid)"
proof -
  have "session_ok w sid sd"
    using reachable_store_ok [OF assms(1)] assms(2) by (simp add: store_ok_def)
  then show ?thesis
    using assms(2) by (auto simp: session_ok_def has_token_def thread_checkpoint_def)
qed

theorem reachable_sessions_hold_token_witness:
  "reachable echo_llm example_created
   \<and> map_of (active_sessions example_created) ''s1'' = Some example_session
   \<and> status example_session = ''waiting_feedback''
   \<and> has_token example_created ''s1''"
  using reachable_sessions_hold_token [OF example_created_reachable example_created_facts(1)]
  by (simp add: example_created_reachable example_created_facts)

text \<open>
  C6.  For a store whose keys are distinct and whose sessions each have a time stamp,
  the sweep at the instant \<open>now\<close> removes exactly the sessions whose age is greater than
  five minutes, the age being \<open>now\<close> less the last activity, or \<open>now\<close> less the creation
  for a session with no last activity.  It keeps every other session with its content
  and in its place, returns the number of the sessions it removed, and run again at the
  same instant removes none and returns 0.  The age and the test are stated on the time
  stamps of the record, not through the helper of the sweep.
\<close>

theorem sweep_exact_and_idempotent:
  assumes "distinct (map fst (active_sessions w))"
    and "\<forall>p \<in> set (active_sessions w). has_time_stamp (snd p)"
  shows "\<exists>n w'. cleanup_expired_sessions now w = (Inr n, w')
           \<and> active_sessions w' = filter (\<lambda>p. \<not> session_expired now (snd p)) (active_sessions w)
           \<and> n = length (filter (\<lambda>p. session_expired now (snd p)) (active_sessions w))
           \<and> n + length (active_sessions w') = length (active_sessions w)
           \<and> (\<forall>sid. map_of (active_sessions w') sid =
                 (case map_of (active_sessions w) sid of
                    None \<Rightarrow> None
                  | Some sd \<Rightarrow> if session_expired now sd then None else Some sd))
           \<and> checkpointer w' = checkpointer w \<and> llm_calls w' = llm_calls w
           \<and> cleanup_expired_sessions now w' = (Inr 0, w')"
proof -
  let ?al = "active_sessions w"
  let ?w' = "w\<lparr>active_sessions := filter (\<lambda>p. \<not> session_expired now (snd p)) ?al\<rparr>"
  have run: "cleanup_expired_sessions now w =
           (Inr (length (filter (\<lambda>p. session_expired now (snd p)) ?al)), ?w')"
    by (rule cleanup_result [OF assms])
  have d: "distinct (map fst (active_sessions ?w'))"
    using assms(1) by (simp add: distinct_map_filter)
  have t: "\<forall>p \<in> set (active_sessions ?w'). has_time_stamp (snd p)"
    using assms(2) by simp
  have again: "cleanup_expired_sessions now ?w' = (Inr 0, ?w')"
    by (simp add: cleanup_result [OF d t])
  have len: "length (filter (\<lambda>p. session_expired now (snd p)) ?al) + length (active_sessions ?w')
               = length ?al"
    using sum_length_filter_compl [of "\<lambda>p. session_expired now (snd p)" ?al] by simp
  have look: "map_of (active_sessions ?w') sid =
                 (case map_of ?al sid of
                    None \<Rightarrow> None
                  | Some sd \<Rightarrow> if session_expired now sd then None else Some sd)" for sid
    using map_of_filter_distinct [OF assms(1), of "session_expired now" sid] by simp
  show ?thesis
    using run again len look by simp
qed

theorem sweep_exact_and_idempotent_witness:
  "distinct (map fst (active_sessions example_store))
   \<and> list_all (\<lambda>p. has_time_stamp (snd p)) (active_sessions example_store)
   \<and> cleanup_expired_sessions 500000000 example_store = (Inr 2, example_swept)
   \<and> cleanup_expired_sessions 500000000 example_swept = (Inr 0, example_swept)
   \<and> map fst (active_sessions example_swept) = [''new'', ''bare_new'', ''edge'']"
proof -
  have d: "distinct (map fst (active_sessions example_store))"
    by (simp add: example_store_def)
  have t: "\<forall>p \<in> set (active_sessions example_store). has_time_stamp (snd p)"
    by (simp add: example_store_def has_time_stamp_def example_session_def)
  have e: "filter (\<lambda>p. \<not> session_expired 500000000 (snd p)) (active_sessions example_store)
             = active_sessions example_swept"
    "length (filter (\<lambda>p. session_expired 500000000 (snd p)) (active_sessions example_store)) = 2"
    by (simp_all add: example_store_def example_swept_def session_expired_def session_age_def
        example_session_def)
  from sweep_exact_and_idempotent [OF d t, of 500000000]
  obtain n w' where r: "cleanup_expired_sessions 500000000 example_store = (Inr n, w')"
    and a: "active_sessions w' = active_sessions example_swept"
    and n: "n = 2"
    and c: "checkpointer w' = checkpointer example_store" "llm_calls w' = llm_calls example_store"
    and i: "cleanup_expired_sessions 500000000 w' = (Inr 0, w')"
    unfolding e by blast
  have "w' = example_swept"
    using a c by (intro world.equality) (simp_all add: example_store_def example_swept_def)
  then show ?thesis
    using r n i d t by (simp add: list_all_iff) (simp add: example_swept_def)
qed



text \<open>
  C10.  As stated the claim fails: the slice \<^verbatim>\<open>hashtags[:count]\<close> of a list that is not empty
  is empty for the count 0, so the method returns the empty list.
\<close>

theorem hashtags_empty_for_count_zero:
  "findall_hashtags ''#AI, #Health'' = [''#AI'', ''#Health'']
   \<and> suggest_hashtags_only (\<lambda>msgs. Inr ''#AI, #Health'') ''a post'' ''AI'' 0 = []"
proof -
  have "findall_hashtags ''#AI, #Health'' = [''#AI'', ''#Health'']"
    by (simp add: char_class_defs)
  then show ?thesis
    by (simp add: hashtags_cases py_slice_to_def)
qed

text \<open>
  C10, amended.  For every content and topic and every count of at least 1, the method
  returns a list that is not empty and whose members each match \<^verbatim>\<open>#\w+\<close>, and it never
  raises: the first \<open>count\<close> matches of the generator's answer when there is a match, the
  three fixed hashtags when there is none, the five fixed hashtags when the generator
  raises.
\<close>

theorem hashtags_for_positive_count:
  assumes "0 < count"
  shows "suggest_hashtags_only gen content tp count \<noteq> []
       \<and> list_all is_hashtag (suggest_hashtags_only gen content tp count)
       \<and> (\<forall>e. gen [''You are a content hashtag expert.'', content, tp, show_int count] = Inl e \<longrightarrow>
            suggest_hashtags_only gen content tp count
              = [''#Content'', ''#Professional'', ''#Growth'', ''#Success'', ''#Business''])
       \<and> (\<forall>txt. gen [''You are a content hashtag expert.'', content, tp, show_int count] = Inr txt \<longrightarrow>
            (findall_hashtags txt = [] \<longrightarrow>
               suggest_hashtags_only gen content tp count = [''#Content'', ''#Professional'', ''#Growth''])
            \<and> (findall_hashtags txt \<noteq> [] \<longrightarrow>
               suggest_hashtags_only gen content tp count = take (nat count) (findall_hashtags txt)
               \<and> int (length (suggest_hashtags_only gen content tp count)) \<le> count))"
proof -
  let ?answer = "gen [''You are a content hashtag expert.'', content, tp, show_int count]"
  show ?thesis
  proof (cases ?answer)
  case (Inl e)
  then show ?thesis
    using default_hashtags(2) by (simp add: hashtags_cases)
next
  case (Inr reply)
  show ?thesis
  proof (cases "findall_hashtags reply = []")
    case True
    then show ?thesis
      using Inr default_hashtags(1) by (simp add: hashtags_cases)
  next
    case False
    have r: "suggest_hashtags_only gen content tp count = take (nat count) (findall_hashtags reply)"
      using Inr False assms by (simp add: hashtags_cases py_slice_to_def)
    have "take (nat count) (findall_hashtags reply) \<noteq> []"
      using False assms by simp
    moreover have "list_all is_hashtag (take (nat count) (findall_hashtags reply))"
      by (rule list_all_take [OF findall_hashtags_are_hashtags])
    moreover have "int (length (take (nat count) (findall_hashtags reply))) \<le> count"
      using assms by simp
    ultimately show ?thesis
      using Inr False r by simp
  qed
  qed
qed

theorem hashtags_for_positive_count_witness:
  "(0::int) < 2
   \<and> findall_hashtags example_reply
       = [''#'' @ [CHR 0xE9] @ ''t'' @ [CHR 0xE9], ''#caf'' @ [CHR 0xE9], ''#Care_2'']
   \<and> suggest_hashtags_only (\<lambda>msgs. Inr example_reply) ''a post'' ''AI'' 2
       = [''#'' @ [CHR 0xE9] @ ''t'' @ [CHR 0xE9], ''#caf'' @ [CHR 0xE9]]
   \<and> list_all is_hashtag (suggest_hashtags_only (\<lambda>msgs. Inr example_reply) ''a post'' ''AI'' 2)"
proof -
  have f: "findall_hashtags example_reply
             = [''#'' @ [CHR 0xE9] @ ''t'' @ [CHR 0xE9], ''#caf'' @ [CHR 0xE9], ''#Care_2'']"
    by (simp add: example_reply_def char_class_defs)
  have p: "(0::int) < 2" by simp
  have n: "findall_hashtags example_reply \<noteq> []"
    unfolding f by simp
  from hashtags_for_positive_count [OF p, of "\<lambda>msgs. Inr example_reply" "''a post''" "''AI''"] n
  have r: "suggest_hashtags_only (\<lambda>msgs. Inr example_reply) ''a post'' ''AI'' 2
          = take (nat 2) (findall_hashtags example_reply)"
    and l: "list_all is_hashtag (suggest_hashtags_only (\<lambda>msgs. Inr example_reply) ''a post'' ''AI'' 2)"
    by blast+
  have "take (nat 2) (findall_hashtags example_reply)
          = [''#'' @ [CHR 0xE9] @ ''t'' @ [CHR 0xE9], ''#caf'' @ [CHR 0xE9]]"
    unfolding f by (simp add: numeral_2_eq_2)
  then show ?thesis
    using f r l p by simp
qed

end
